theory Spec2Isabelle
  imports Complex_Main "HOL-Library.AList"
begin

section \<open>JavaScript values\<close>

text \<open>
  The handlers of \<^verbatim>\<open>server/controllers/showController.js\<close> work on JSON documents:
  the parsed request body, the documents the metadata provider returns, and the fields
  of the stored records. A JSON document is a value of \<open>jsval\<close>; \<open>JUndefined\<close> is the
  value of a property that is absent. Numbers are modelled by their rational value
  (every finite double is one); an object is the list of its own properties.
\<close>

datatype jsval =
    JUndefined
  | JNull
  | JBool bool
  | JNum rat
  | JStr string
  | JArr "jsval list"
  | JObj "(string \<times> jsval) list"

text \<open>Truthiness, as \<^verbatim>\<open>!v\<close>, \<^verbatim>\<open>a || b\<close> and \<^verbatim>\<open>if (v)\<close> read it: \<^verbatim>\<open>undefined\<close>, \<^verbatim>\<open>null\<close>,
  \<^verbatim>\<open>false\<close>, \<^verbatim>\<open>0\<close> and the empty string are falsy; every array and object is truthy,
  the empty ones included.\<close>

fun truthy :: "jsval \<Rightarrow> bool" where
  "truthy JUndefined = False"
| "truthy JNull = False"
| "truthy (JBool b) = b"
| "truthy (JNum n) = (n \<noteq> 0)"
| "truthy (JStr s) = (s \<noteq> [])"
| "truthy (JArr xs) = True"
| "truthy (JObj kvs) = True"

definition nullish :: "jsval \<Rightarrow> bool" where
  "nullish v = (v = JUndefined \<or> v = JNull)"

text \<open>\<^verbatim>\<open>v.k\<close> for a value that is neither \<^verbatim>\<open>undefined\<close> nor \<^verbatim>\<open>null\<close>, and for the
  property names this file reads (none of them is a property of a built-in prototype):
  the own property of an object, \<^verbatim>\<open>undefined\<close> otherwise.\<close>

definition own_prop :: "jsval \<Rightarrow> string \<Rightarrow> jsval" where
  "own_prop v k =
     (case v of
        JObj kvs \<Rightarrow> (case map_of kvs k of Some x \<Rightarrow> x | None \<Rightarrow> JUndefined)
      | _ \<Rightarrow> JUndefined)"

text \<open>Reading a property of \<^verbatim>\<open>undefined\<close> or \<^verbatim>\<open>null\<close> throws a TypeError; the thrown
  error is the \<open>Inl\<close> of a sum, carrying its message.\<close>

definition get_member :: "jsval \<Rightarrow> string \<Rightarrow> string + jsval" where
  "get_member v k =
     (if nullish v
      then Inl (''Cannot read properties of '' @ (if v = JNull then ''null'' else ''undefined'')
                @ '' (reading '' @ [CHR 0x27] @ k @ [CHR 0x27] @ '')'')
      else Inr (own_prop v k))"

subsection \<open>Strings of numbers and values\<close>

definition digit_char :: "nat \<Rightarrow> char" where
  "digit_char n = ''0123456789'' ! (n mod 10)"

function show_nat :: "nat \<Rightarrow> string" where
  "show_nat n = (if n < 10 then [digit_char n] else show_nat (n div 10) @ [digit_char n])"
  by pat_completeness auto
termination
  by (relation "measure id") auto

declare show_nat.simps [simp del]

definition pad2 :: "nat \<Rightarrow> string" where
  "pad2 n = [digit_char (n div 10), digit_char n]"

definition pad3 :: "nat \<Rightarrow> string" where
  "pad3 n = [digit_char (n div 100), digit_char (n div 10), digit_char n]"

definition pad4 :: "nat \<Rightarrow> string" where
  "pad4 n = digit_char (n div 1000) # pad3 n"

definition pad6 :: "nat \<Rightarrow> string" where
  "pad6 n = [digit_char (n div 100000), digit_char (n div 10000)] @ pad4 n"

fun join_comma :: "string list \<Rightarrow> string" where
  "join_comma [] = []"
| "join_comma [s] = s"
| "join_comma (s # t # ss) = s @ '','' @ join_comma (t # ss)"

text \<open>The string a template literal \<^verbatim>\<open>`${v}`\<close> puts in for a value. The decimal form of
  a number is the runtime's; it is the parameter \<open>num\<close>.\<close>

fun to_string :: "(rat \<Rightarrow> string) \<Rightarrow> jsval \<Rightarrow> string" where
  "to_string num JUndefined = ''undefined''"
| "to_string num JNull = ''null''"
| "to_string num (JBool b) = (if b then ''true'' else ''false'')"
| "to_string num (JNum n) = num n"
| "to_string num (JStr s) = s"
| "to_string num (JArr xs) =
     join_comma (map (\<lambda>v. if nullish v then [] else to_string num v) xs)"
| "to_string num (JObj kvs) = ''[object Object]''"

text \<open>The conversion throws a TypeError for an object that has a property \<^verbatim>\<open>toString\<close>
  of its own (in a JSON document it is not a function, and what the object inherits
  as \<^verbatim>\<open>valueOf\<close> returns the object), and for an array that holds such a value.
  \<open>to_string\<close> is the string when it does not throw.\<close>

fun to_string_throws :: "jsval \<Rightarrow> bool" where
  "to_string_throws (JObj kvs) = (map_of kvs ''toString'' \<noteq> None)"
| "to_string_throws (JArr xs) = list_ex (\<lambda>v. to_string_throws v \<and> \<not> nullish v) xs"
| "to_string_throws v = False"

definition not_primitive :: string where
  "not_primitive = ''Cannot convert object to primitive value''"

section \<open>Dates\<close>

text \<open>
  A \<^verbatim>\<open>Date\<close> is its time value: the milliseconds since the epoch, or \<open>None\<close> for
  the invalid date, whose time value is \<^verbatim>\<open>NaN\<close>. \<^verbatim>\<open>new Date(string)\<close> is the runtime's
  parser, a parameter of the model (\<open>date_parse\<close> below). \<^verbatim>\<open>toISOString\<close> is written
  out as the language defines it: the UTC calendar date of the day number, the time of
  day, and a year of four digits, or of six digits with a sign outside 0 to 9999.
\<close>

definition msPerDay :: int where
  "msPerDay = 86400000"

definition civil_from_days :: "int \<Rightarrow> int \<times> nat \<times> nat" where
  "civil_from_days day =
     (let z = day + 719468;
          era = z div 146097;
          doe = z - era * 146097;
          yoe = (doe - doe div 1460 + doe div 36524 - doe div 146096) div 365;
          doy = doe - (365 * yoe + yoe div 4 - yoe div 100);
          mp = (5 * doy + 2) div 153;
          d = doy - (153 * mp + 2) div 5 + 1;
          m = (if mp < 10 then mp + 3 else mp - 9);
          y = yoe + era * 400 + (if m \<le> 2 then 1 else 0)
      in (y, nat m, nat d))"

definition year_string :: "int \<Rightarrow> string" where
  "year_string y =
     (if 0 \<le> y \<and> y \<le> 9999 then pad4 (nat y)
      else (if y < 0 then CHR ''-'' else CHR ''+'') # pad6 (nat \<bar>y\<bar>))"

definition iso_date :: "int \<Rightarrow> string" where
  "iso_date t =
     (case civil_from_days (t div msPerDay) of
        (y, m, d) \<Rightarrow> year_string y @ ''-'' @ pad2 m @ ''-'' @ pad2 d)"

definition iso_time :: "int \<Rightarrow> string" where
  "iso_time t =
     (let ms = nat (t mod msPerDay)
      in pad2 (ms div 3600000) @ '':'' @ pad2 (ms div 60000 mod 60) @ '':''
         @ pad2 (ms div 1000 mod 60) @ ''.'' @ pad3 (ms mod 1000))"

definition toISOString :: "int \<Rightarrow> string" where
  "toISOString t = iso_date t @ ''T'' @ iso_time t @ ''Z''"

section \<open>The stored records\<close>

text \<open>
  A Movie document holds the provider's fields as they came. A Show document is what
  \<^verbatim>\<open>addShow\<close> builds; the stored Show is that document with the identifier the
  storage layer gave it.
\<close>

record Movie =
  movie_id :: jsval
  title :: jsval
  overview :: jsval
  poster_path :: jsval
  backdrop_path :: jsval
  genres :: jsval
  casts :: jsval
  release_date :: jsval
  original_language :: jsval
  tagline :: jsval
  vote_average :: jsval
  runtime :: jsval

record ShowDoc =
  movie :: jsval
  showDateTime :: "int option"
  showPrice :: jsval
  occupiedSeats :: "(string \<times> jsval) list"

record Show = ShowDoc +
  show_id :: nat

record store =
  Movies :: "Movie list"
  Shows :: "Show list"

section \<open>The HTTP client and its retry policy\<close>

text \<open>
  An axios error as the handlers and the retry package read it: its \<^verbatim>\<open>code\<close>, the
  \<^verbatim>\<open>response\<close> when the provider answered with a status outside 2xx, whether a
  \<^verbatim>\<open>request\<close> was sent, its \<^verbatim>\<open>message\<close>, and whether it carries the \<^verbatim>\<open>config\<close> of the
  request (an error made before the request was set up does not).
\<close>

record http_response =
  status :: nat
  data :: jsval

record axios_error =
  code :: "string option"
  response :: "http_response option"
  request :: bool
  emessage :: string
  config :: bool

text \<open>
  Everything outside the handlers is an input of the model, collected in one record:
  the clock, the runtime's date parser and number printer, the provider (the outcome of
  each attempt of a GET, by URL and attempt number), whether the time a request may
  take is used up before one of its retries, the order in which two concurrent requests
  settle, and the failures of the storage layer.
\<close>

record env =
  now :: int
  date_parse :: "string \<Rightarrow> int option"
  number_to_string :: "rat \<Rightarrow> string"
  isRetryAllowed :: "axios_error \<Rightarrow> bool"
  tmdb :: "string \<Rightarrow> nat \<Rightarrow> axios_error + jsval"
  out_of_time :: "string \<Rightarrow> nat \<Rightarrow> bool"
  credits_rejects_first :: bool
  findById_fails :: "jsval \<Rightarrow> string option"
  create_fails :: "Movie \<Rightarrow> string option"
  insertMany_fails :: "ShowDoc list \<Rightarrow> string option"
  find_fails :: "string option"

subsection \<open>The configuration passed to axios-retry\<close>

definition retries :: nat where
  "retries = 3"

definition retryDelay :: "nat \<Rightarrow> nat" where
  "retryDelay retryCount = retryCount * 1000"

text \<open>
  \<^verbatim>\<open>axiosRetry.isNetworkError\<close> and \<^verbatim>\<open>axiosRetry.isRetryableError\<close> are helpers of the
  axios-retry package the file imports. They are written here as that package defines
  them: a network error has no response and a code other than those of a timeout or a
  cancellation, and passes the package's deny list (the parameter \<open>isRetryAllowed\<close>); a
  retryable error is not a timeout and has no response, or a response with status 429
  or 5xx.
\<close>

definition isNetworkError :: "env \<Rightarrow> axios_error \<Rightarrow> bool" where
  "isNetworkError e error =
     (response error = None \<and> code error \<noteq> None \<and> code error \<noteq> Some []
      \<and> code error \<noteq> Some ''ERR_CANCELED'' \<and> code error \<noteq> Some ''ECONNABORTED''
      \<and> isRetryAllowed e error)"

definition isRetryableError :: "axios_error \<Rightarrow> bool" where
  "isRetryableError error =
     (code error \<noteq> Some ''ECONNABORTED''
      \<and> (case response error of
            None \<Rightarrow> True
          | Some r \<Rightarrow> status r = 429 \<or> (500 \<le> status r \<and> status r \<le> 599)))"

definition retryCondition :: "env \<Rightarrow> axios_error \<Rightarrow> bool" where
  "retryCondition e error =
     (isNetworkError e error
      \<or> isRetryableError error
      \<or> code error = Some ''ECONNRESET''
      \<or> (case response error of
            None \<Rightarrow> False
          | Some r \<Rightarrow> status r \<in> set [429, 500, 502, 503, 504]))"

text \<open>
  A GET through the patched client. Attempt number \<open>retryCount\<close> either returns the
  response's data or fails; a failure is retried while fewer than \<open>retries\<close> retries
  were made and \<open>retryCondition\<close> holds, after waiting \<open>retryDelay\<close> of the new retry
  count. The package retries only an error that carries the request's \<^verbatim>\<open>config\<close>, and
  only within the timeout of the request (8000 milliseconds here): when the time spent
  and the next delay leave nothing of it, the error is returned instead
  (\<open>out_of_time\<close>). The result comes with the delays waited, in milliseconds.
\<close>

function axios_get :: "env \<Rightarrow> string \<Rightarrow> nat \<Rightarrow> (axios_error + jsval) \<times> nat list" where
  "axios_get e url retryCount =
     (case tmdb e url retryCount of
        Inr d \<Rightarrow> (Inr d, [])
      | Inl error \<Rightarrow>
          if config error \<and> retryCount < retries \<and> retryCondition e error
             \<and> \<not> out_of_time e url (Suc retryCount)
          then (case axios_get e url (Suc retryCount) of
                  (r, delays) \<Rightarrow> (r, retryDelay (Suc retryCount) # delays))
          else (Inl error, []))"
  by pat_completeness auto
termination
  by (relation "measure (\<lambda>(e, url, retryCount). retries - retryCount)") auto

declare axios_get.simps [simp del]

text \<open>\<^verbatim>\<open>makeTmdbRequest\<close>: the data of the response, or an \<^verbatim>\<open>Error\<close> whose message names
  one of three causes. The provider's \<^verbatim>\<open>status_message\<close>, when it is there, is taken
  to convert to a string (the provider sends a string).\<close>

definition makeTmdbRequest :: "env \<Rightarrow> string \<Rightarrow> string + jsval" where
  "makeTmdbRequest e url =
     (case fst (axios_get e url 0) of
        Inr d \<Rightarrow> Inr d
      | Inl error \<Rightarrow>
          (case response error of
             Some r \<Rightarrow>
               Inl (''TMDB API Error: '' @ show_nat (status r) @ '' - ''
                    @ (let m = (if nullish (data r) then JUndefined
                                else own_prop (data r) ''status_message'')
                       in if truthy m then to_string (number_to_string e) m
                          else ''Unknown error''))
           | None \<Rightarrow>
               if request error then Inl ''No response received from TMDB API''
               else Inl (''Error setting up request: '' @ emessage error)))"

section \<open>The storage layer\<close>

text \<open>
  Modelled from the spec: the Movie and Show repositories (\<^verbatim>\<open>models/Movie.js\<close> and
  \<^verbatim>\<open>models/Show.js\<close> are not among the sources). The store is the two collections.
  \<^verbatim>\<open>findById\<close> returns the Movie of the given identifier or \<^verbatim>\<open>null\<close>; \<^verbatim>\<open>create\<close>
  adds one Movie; \<^verbatim>\<open>insertMany\<close> adds a batch of Shows, all or none, and refuses a
  batch that holds a Show whose \<open>showDateTime\<close> is the invalid date (the data model's
  invariant: it is a reportable error). Each operation can also fail for a reason of
  its own (the \<open>_fails\<close> fields of \<open>env\<close>), with a message.
\<close>

definition Movie_findById :: "env \<Rightarrow> store \<Rightarrow> jsval \<Rightarrow> string + Movie option" where
  "Movie_findById e st movieId =
     (case findById_fails e movieId of
        Some err \<Rightarrow> Inl err
      | None \<Rightarrow> Inr (find (\<lambda>m. movie_id m = movieId) (Movies st)))"

definition Movie_create :: "env \<Rightarrow> store \<Rightarrow> Movie \<Rightarrow> string + store" where
  "Movie_create e st doc =
     (case create_fails e doc of
        Some err \<Rightarrow> Inl err
      | None \<Rightarrow> Inr (st\<lparr>Movies := Movies st @ [doc]\<rparr>))"

definition next_id :: "Show list \<Rightarrow> nat" where
  "next_id ss = fold (\<lambda>s n. max n (Suc (show_id s))) ss 0"

fun assign_ids :: "nat \<Rightarrow> ShowDoc list \<Rightarrow> Show list" where
  "assign_ids n [] = []"
| "assign_ids n (d # ds) =
     \<lparr>movie = movie d, showDateTime = showDateTime d, showPrice = showPrice d,
      occupiedSeats = occupiedSeats d, show_id = n\<rparr> # assign_ids (Suc n) ds"

definition Show_insertMany :: "env \<Rightarrow> store \<Rightarrow> ShowDoc list \<Rightarrow> string + store" where
  "Show_insertMany e st docs =
     (if list_ex (\<lambda>d. showDateTime d = None) docs
      then Inl ''Show validation failed: showDateTime: Cast to date failed''
      else (case insertMany_fails e docs of
              Some err \<Rightarrow> Inl err
            | None \<Rightarrow> Inr (st\<lparr>Shows := Shows st @ assign_ids (next_id (Shows st)) docs\<rparr>)))"

section \<open>addShow\<close>

text \<open>The JSON replies of \<^verbatim>\<open>addShow\<close>: the HTTP status (200 unless \<^verbatim>\<open>res.status\<close> set
  it), the \<^verbatim>\<open>success\<close> flag and the message.\<close>

record reply =
  statusCode :: nat
  success :: bool
  message :: string

definition added :: reply where
  "added = \<lparr>statusCode = 200, success = True, message = ''Show added successfully''\<rparr>"

definition failed :: "string \<Rightarrow> reply" where
  "failed err = \<lparr>statusCode = 200, success = False, message = err\<rparr>"

definition missing_fields :: reply where
  "missing_fields =
     \<lparr>statusCode = 400, success = False,
      message = ''Missing required fields (movieId, showsInput, showPrice)''\<rparr>"

text \<open>\<^verbatim>\<open>movieCredits.cast.slice(0, 10)\<close>: the first ten elements of an array (or
  characters of a string); a TypeError for a value that has no \<^verbatim>\<open>slice\<close>.\<close>

definition slice_0_10 :: "jsval \<Rightarrow> string + jsval" where
  "slice_0_10 v =
     (case v of
        JArr xs \<Rightarrow> Inr (JArr (take 10 xs))
      | JStr s \<Rightarrow> Inr (JStr (take 10 s))
      | JUndefined \<Rightarrow> Inl (''Cannot read properties of undefined (reading ''
                          @ [CHR 0x27] @ ''slice'' @ [CHR 0x27] @ '')'')
      | JNull \<Rightarrow> Inl (''Cannot read properties of null (reading ''
                     @ [CHR 0x27] @ ''slice'' @ [CHR 0x27] @ '')'')
      | _ \<Rightarrow> Inl ''movieCredits.cast.slice is not a function'')"

definition movieDetailsToSave :: "jsval \<Rightarrow> jsval \<Rightarrow> jsval \<Rightarrow> string + Movie" where
  "movieDetailsToSave movieId movieDetails movieCredits =
     (case get_member movieDetails ''title'' of
        Inl err \<Rightarrow> Inl err
      | Inr the_title \<Rightarrow>
          (case get_member movieCredits ''cast'' of
             Inl err \<Rightarrow> Inl err
           | Inr cast \<Rightarrow>
               (case slice_0_10 cast of
                  Inl err \<Rightarrow> Inl err
                | Inr top_cast \<Rightarrow>
                    Inr \<lparr>movie_id = movieId,
                         title = the_title,
                         overview = own_prop movieDetails ''overview'',
                         poster_path = own_prop movieDetails ''poster_path'',
                         backdrop_path = own_prop movieDetails ''backdrop_path'',
                         genres = own_prop movieDetails ''genres'',
                         casts = top_cast,
                         release_date = own_prop movieDetails ''release_date'',
                         original_language = own_prop movieDetails ''original_language'',
                         tagline = (if truthy (own_prop movieDetails ''tagline'')
                                    then own_prop movieDetails ''tagline'' else JStr []),
                         vote_average = own_prop movieDetails ''vote_average'',
                         runtime = own_prop movieDetails ''runtime''\<rparr>)))"

text \<open>
  Lines 77 to 103: look the Movie up; when there is none, request its details and its
  credits (both requests are sent before either is awaited; the first rejection is the
  error of \<^verbatim>\<open>Promise.all\<close>), build the Movie and create it. The URLs are template
  literals of \<^verbatim>\<open>movieId\<close>: when its conversion throws, nothing is requested. The
  result is the store afterwards or the error thrown, and the URLs requested from the
  provider.
\<close>

definition find_or_create_movie :: "env \<Rightarrow> store \<Rightarrow> jsval \<Rightarrow> (string + store) \<times> string list" where
  "find_or_create_movie e st movieId =
     (case Movie_findById e st movieId of
        Inl err \<Rightarrow> (Inl err, [])
      | Inr (Some m) \<Rightarrow> (Inr st, [])
      | Inr None \<Rightarrow>
          if to_string_throws movieId then (Inl not_primitive, [])
          else
          (let details_url = ''https://api.themoviedb.org/3/movie/''
                             @ to_string (number_to_string e) movieId;
               credits_url = details_url @ ''/credits''
           in (case (makeTmdbRequest e details_url, makeTmdbRequest e credits_url) of
                 (Inr movieDetails, Inr movieCredits) \<Rightarrow>
                   (case movieDetailsToSave movieId movieDetails movieCredits of
                      Inl err \<Rightarrow> Inl err
                    | Inr doc \<Rightarrow> Movie_create e st doc)
               | (Inl err, Inr movieCredits) \<Rightarrow> Inl err
               | (Inr movieDetails, Inl err) \<Rightarrow> Inl err
               | (Inl err1, Inl err2) \<Rightarrow>
                   Inl (if credits_rejects_first e then err2 else err1),
               [details_url, credits_url])))"

text \<open>Lines 105 to 117: the two nested \<^verbatim>\<open>forEach\<close> loops that fill
  \<^verbatim>\<open>showsToCreate\<close>. \<^verbatim>\<open>forEach\<close> of a value that is not an array throws, and so
  does the template literal of a date or a time whose conversion throws.\<close>

definition dateTimeString :: "env \<Rightarrow> jsval \<Rightarrow> jsval \<Rightarrow> string" where
  "dateTimeString e showDate t =
     to_string (number_to_string e) showDate @ ''T'' @ to_string (number_to_string e) t"

definition new_show :: "env \<Rightarrow> jsval \<Rightarrow> jsval \<Rightarrow> jsval \<Rightarrow> jsval \<Rightarrow> ShowDoc" where
  "new_show e movieId price showDate t =
     \<lparr>movie = movieId,
      showDateTime = date_parse e (dateTimeString e showDate t),
      showPrice = price,
      occupiedSeats = []\<rparr>"

definition forEach_error :: "string \<Rightarrow> jsval \<Rightarrow> string" where
  "forEach_error what v =
     (if nullish v
      then ''Cannot read properties of '' @ (if v = JNull then ''null'' else ''undefined'')
           @ '' (reading '' @ [CHR 0x27] @ ''forEach'' @ [CHR 0x27] @ '')''
      else what @ ''.forEach is not a function'')"

fun expand_shows :: "env \<Rightarrow> jsval \<Rightarrow> jsval \<Rightarrow> jsval list \<Rightarrow> ShowDoc list \<Rightarrow> string + ShowDoc list" where
  "expand_shows e movieId price [] showsToCreate = Inr showsToCreate"
| "expand_shows e movieId price (entry # rest) showsToCreate =
     (case get_member entry ''date'' of
        Inl err \<Rightarrow> Inl err
      | Inr showDate \<Rightarrow>
          (case own_prop entry ''time'' of
             JArr show_times \<Rightarrow>
               if list_ex (\<lambda>t. to_string_throws showDate \<or> to_string_throws t) show_times
               then Inl not_primitive
               else expand_shows e movieId price rest
                      (showsToCreate @ map (new_show e movieId price showDate) show_times)
           | v \<Rightarrow> Inl (forEach_error ''show.time'' v)))"

definition showsToCreate :: "env \<Rightarrow> jsval \<Rightarrow> jsval \<Rightarrow> jsval \<Rightarrow> string + ShowDoc list" where
  "showsToCreate e movieId price showsInput =
     (case showsInput of
        JArr entries \<Rightarrow> expand_shows e movieId price entries []
      | v \<Rightarrow> Inl (forEach_error ''showsInput'' v))"

text \<open>
  The handler, on the parsed JSON object of the request body. It returns the reply, the
  store afterwards, and the URLs requested from the metadata provider.
\<close>

definition addShow :: "env \<Rightarrow> store \<Rightarrow> (string \<times> jsval) list \<Rightarrow> reply \<times> store \<times> string list" where
  "addShow e st body =
     (let movieId = own_prop (JObj body) ''movieId'';
          showsInput = own_prop (JObj body) ''showsInput'';
          price = own_prop (JObj body) ''showPrice''
      in if \<not> truthy movieId \<or> \<not> truthy showsInput \<or> \<not> truthy price
         then (missing_fields, st, [])
         else (case find_or_create_movie e st movieId of
                 (Inl err, requested) \<Rightarrow> (failed err, st, requested)
               | (Inr st1, requested) \<Rightarrow>
                   (case showsToCreate e movieId price showsInput of
                      Inl err \<Rightarrow> (failed err, st1, requested)
                    | Inr docs \<Rightarrow>
                        if length docs > 0
                        then (case Show_insertMany e st1 docs of
                                Inl err \<Rightarrow> (failed err, st1, requested)
                              | Inr st2 \<Rightarrow> (added, st2, requested))
                        else (added, st1, requested))))"

section \<open>getShows\<close>

text \<open>
  \<^verbatim>\<open>Show.find({showDateTime: {$gte: new Date()}})\<close>: the stored Shows whose date is
  valid and not before now.
\<close>

definition upcoming :: "env \<Rightarrow> Show \<Rightarrow> bool" where
  "upcoming e s = (case showDateTime s of Some t \<Rightarrow> now e \<le> t | None \<Rightarrow> False)"

definition time_value :: "Show \<Rightarrow> int" where
  "time_value s = (case showDateTime s of Some t \<Rightarrow> t | None \<Rightarrow> 0)"

text \<open>
  \<^verbatim>\<open>populate('movie')\<close> replaces the \<open>movie\<close> of every Show found by the Movie
  document of that identifier, or by \<^verbatim>\<open>null\<close> when there is none. The storage library
  reads the Movies referenced with one query and, unless asked to clone (the handler
  does not ask), gives every Show of one identifier the same document object. Objects
  have identity: a populated value is \<open>Doc r m\<close>, the object at address \<open>r\<close>, holding
  \<open>m\<close>. The address is the position of the document in the result of that query; when
  two documents have the same identifier, the later one is assigned.
\<close>

datatype populated = Null | Doc nat Movie

definition referenced :: "Movie list \<Rightarrow> Show list \<Rightarrow> Movie list" where
  "referenced ms found = filter (\<lambda>m. movie_id m \<in> set (map movie found)) ms"

fun assigned :: "Movie list \<Rightarrow> nat \<Rightarrow> jsval \<Rightarrow> populated" where
  "assigned [] r ident = Null"
| "assigned (m # ms) r ident =
     (case assigned ms (Suc r) ident of
        Doc r' m' \<Rightarrow> Doc r' m'
      | Null \<Rightarrow> if movie_id m = ident then Doc r m else Null)"

definition populate :: "store \<Rightarrow> Show list \<Rightarrow> (Show \<times> populated) list" where
  "populate st found =
     map (\<lambda>s. (s, assigned (referenced (Movies st) found) 0 (movie s))) found"

text \<open>
  A \<^verbatim>\<open>Set\<close> keeps the first of the values that are the same to it, in insertion order:
  two objects are the same when they are one object, whatever they hold.
\<close>

fun same_value :: "populated \<Rightarrow> populated \<Rightarrow> bool" where
  "same_value Null Null = True"
| "same_value (Doc r m) (Doc r' m') = (r = r')"
| "same_value Null (Doc r m) = False"
| "same_value (Doc r m) Null = False"

definition Set_add :: "populated list \<Rightarrow> populated \<Rightarrow> populated list" where
  "Set_add elems x = (if list_ex (same_value x) elems then elems else elems @ [x])"

definition new_Set :: "populated list \<Rightarrow> populated list" where
  "new_Set xs = foldl Set_add [] xs"

text \<open>The handler: the list under \<^verbatim>\<open>shows\<close> of the reply, or the message of the
  failure reply.\<close>

definition getShows :: "env \<Rightarrow> store \<Rightarrow> string + populated list" where
  "getShows e st =
     (case find_fails e of
        Some err \<Rightarrow> Inl err
      | None \<Rightarrow>
          (let found = populate st (sort_key time_value (filter (upcoming e) (Shows st)));
               uniqueShows = new_Set (map snd found)
           in Inr uniqueShows))"

section \<open>getShow\<close>

text \<open>
  \<^verbatim>\<open>dateTime\<close> is a plain object: the list of its own properties. Reading
  \<^verbatim>\<open>dateTime[date]\<close> also finds what the object inherits from \<^verbatim>\<open>Object.prototype\<close>;
  such a value is truthy and has no \<^verbatim>\<open>push\<close>, so the call throws.
\<close>

record slot =
  time :: "int option"
  showId :: nat

definition Object_prototype :: "string list" where
  "Object_prototype =
     [''constructor'', ''__defineGetter__'', ''__defineSetter__'', ''hasOwnProperty'',
      ''__lookupGetter__'', ''__lookupSetter__'', ''isPrototypeOf'',
      ''propertyIsEnumerable'', ''toString'', ''valueOf'', ''__proto__'',
      ''toLocaleString'']"

definition date_key :: "int \<Rightarrow> string" where
  "date_key t = takeWhile (\<lambda>c. c \<noteq> CHR ''T'') (toISOString t)"

fun group_shows :: "Show list \<Rightarrow> (string \<times> slot list) list \<Rightarrow> string + (string \<times> slot list) list" where
  "group_shows [] dateTime = Inr dateTime"
| "group_shows (s # rest) dateTime =
     (case showDateTime s of
        None \<Rightarrow> Inl ''Invalid time value''
      | Some t \<Rightarrow>
          (let date = date_key t;
               entry = \<lparr>time = showDateTime s, showId = show_id s\<rparr>
           in (case map_of dateTime date of
                 Some bucket \<Rightarrow> group_shows rest (AList.update date (bucket @ [entry]) dateTime)
               | None \<Rightarrow>
                   if date \<in> set Object_prototype
                   then Inl ''dateTime[date].push is not a function''
                   else group_shows rest (AList.update date [entry] dateTime))))"

definition getShow :: "env \<Rightarrow> store \<Rightarrow> jsval \<Rightarrow> string + Movie option \<times> (string \<times> slot list) list" where
  "getShow e st movieId =
     (case find_fails e of
        Some err \<Rightarrow> Inl err
      | None \<Rightarrow>
          (let found = filter (\<lambda>s. movie s = movieId \<and> upcoming e s) (Shows st)
           in (case Movie_findById e st movieId of
                 Inl err \<Rightarrow> Inl err
               | Inr found_movie \<Rightarrow>
                   (case group_shows found [] of
                      Inl err \<Rightarrow> Inl err
                    | Inr dateTime \<Rightarrow> Inr (found_movie, dateTime)))))"

section \<open>An environment for the examples\<close>

text \<open>
  One date parser: the form \<^verbatim>\<open>YYYY-MM-DDTHH:mm\<close> with every field in range, read on
  a server whose time zone is UTC; any other string gives the invalid date.
\<close>

definition digit_of :: "char \<Rightarrow> nat option" where
  "digit_of c = map_of (zip ''0123456789'' [0, 1, 2, 3, 4, 5, 6, 7, 8, 9]) c"

fun digits_value :: "nat \<Rightarrow> string \<Rightarrow> nat option" where
  "digits_value acc [] = Some acc"
| "digits_value acc (c # cs) =
     (case digit_of c of None \<Rightarrow> None | Some d \<Rightarrow> digits_value (10 * acc + d) cs)"

definition days_in_month :: "nat \<Rightarrow> nat \<Rightarrow> nat" where
  "days_in_month y m =
     (if m = 2 then (if y mod 4 = 0 \<and> (y mod 100 \<noteq> 0 \<or> y mod 400 = 0) then 29 else 28)
      else if m \<in> set [4, 6, 9, 11] then 30 else 31)"

definition days_from_civil :: "int \<Rightarrow> int \<Rightarrow> int \<Rightarrow> int" where
  "days_from_civil y0 m d =
     (let y = (if m \<le> 2 then y0 - 1 else y0);
          era = y div 400;
          yoe = y - era * 400;
          doy = (153 * (if m > 2 then m - 3 else m + 9) + 2) div 5 + d - 1;
          doe = yoe * 365 + yoe div 4 - yoe div 100 + doy
      in era * 146097 + doe - 719468)"

definition utc_parse :: "string \<Rightarrow> int option" where
  "utc_parse s =
     (if length s = 16 \<and> s ! 4 = CHR ''-'' \<and> s ! 7 = CHR ''-'' \<and> s ! 10 = CHR ''T''
         \<and> s ! 13 = CHR '':''
      then (case (digits_value 0 (take 4 s), digits_value 0 (take 2 (drop 5 s)),
                  digits_value 0 (take 2 (drop 8 s)), digits_value 0 (take 2 (drop 11 s)),
                  digits_value 0 (drop 14 s)) of
              (Some y, Some m, Some d, Some h, Some mi) \<Rightarrow>
                if 1 \<le> m \<and> m \<le> 12 \<and> 1 \<le> d \<and> d \<le> days_in_month y m \<and> h < 24 \<and> mi < 60
                then Some (days_from_civil (int y) (int m) (int d) * msPerDay
                           + int h * 3600000 + int mi * 60000)
                else None
            | _ \<Rightarrow> None)
      else None)"

text \<open>
  A provider that knows the movie \<^verbatim>\<open>tt1\<close> and nothing else, and whose list of movies
  now playing is unavailable (503) on the first two attempts.
\<close>

definition not_found :: axios_error where
  "not_found =
     \<lparr>code = Some ''ERR_BAD_REQUEST'',
      response = Some \<lparr>status = 404,
                        data = JObj [(''status_message'', JStr ''Not found.'')]\<rparr>,
      request = True,
      emessage = ''Request failed with status code 404'',
      config = True\<rparr>"

definition unavailable :: axios_error where
  "unavailable =
     \<lparr>code = Some ''ERR_BAD_RESPONSE'',
      response = Some \<lparr>status = 503, data = JNull\<rparr>,
      request = True,
      emessage = ''Request failed with status code 503'',
      config = True\<rparr>"


definition provider :: "string \<Rightarrow> nat \<Rightarrow> axios_error + jsval" where
  "provider url attempt =
     (if url = ''https://api.themoviedb.org/3/movie/tt1''
      then Inr (JObj [(''title'', JStr ''Heat''), (''runtime'', JNum 170)])
      else if url = ''https://api.themoviedb.org/3/movie/tt1/credits''
      then Inr (JObj [(''cast'', JArr [JStr ''Al'', JStr ''Bob''])])
      else if url = ''https://api.themoviedb.org/3/movie/now_playing''
      then (if attempt < 2 then Inl unavailable else Inr (JObj [(''results'', JArr [])]))
      else Inl not_found)"

definition example_env :: env where
  "example_env =
     \<lparr>now = 1714000000000,
      date_parse = utc_parse,
      number_to_string = (\<lambda>n. []),
      isRetryAllowed = (\<lambda>error. True),
      tmdb = provider,
      out_of_time = (\<lambda>url retry. False),
      credits_rejects_first = False,
      findById_fails = (\<lambda>movieId. None),
      create_fails = (\<lambda>doc. None),
      insertMany_fails = (\<lambda>docs. None),
      find_fails = None\<rparr>"

definition empty_store :: store where
  "empty_store = \<lparr>Movies = [], Shows = []\<rparr>"

definition heat :: Movie where
  "heat =
     \<lparr>movie_id = JStr ''tt1'', title = JStr ''Heat'', overview = JUndefined,
      poster_path = JUndefined, backdrop_path = JUndefined, genres = JUndefined,
      casts = JArr [JStr ''Al'', JStr ''Bob''], release_date = JUndefined,
      original_language = JUndefined, tagline = JStr [], vote_average = JUndefined,
      runtime = JNum 170\<rparr>"

definition heat_store :: store where
  "heat_store = \<lparr>Movies = [heat], Shows = []\<rparr>"

definition two_shows_store :: store where
  "two_shows_store =
     \<lparr>Movies = [heat],
      Shows = [\<lparr>movie = JStr ''tt1'', showDateTime = Some 1714557600000,
                 showPrice = JNum 200, occupiedSeats = [], show_id = 0\<rparr>,
               \<lparr>movie = JStr ''tt1'', showDateTime = Some 1714572000000,
                 showPrice = JNum 200, occupiedSeats = [], show_id = 1\<rparr>]\<rparr>"

definition tt1_request :: "(string \<times> jsval) list" where
  "tt1_request =
     [(''movieId'', JStr ''tt1''),
      (''showsInput'', JArr [JObj [(''date'', JStr ''2024-05-01''),
                                    (''time'', JArr [JStr ''10:00'', JStr ''14:00''])]]),
      (''showPrice'', JNum 200)]"

definition two_dates_request :: "(string \<times> jsval) list" where
  "two_dates_request =
     [(''movieId'', JStr ''tt1''),
      (''showsInput'', JArr [JObj [(''date'', JStr ''2024-05-01''),
                                    (''time'', JArr [JStr ''10:00'', JStr ''14:00''])],
                             JObj [(''date'', JStr ''2024-05-02''),
                                    (''time'', JArr [JStr ''10:00''])]]),
      (''showPrice'', JNum 200)]"

definition free_request :: "(string \<times> jsval) list" where
  "free_request =
     [(''movieId'', JStr ''tt1''),
      (''showsInput'', JArr [JObj [(''date'', JStr ''2024-05-01''),
                                    (''time'', JArr [JStr ''10:00''])]]),
      (''showPrice'', JNum 0)]"

definition malformed_request :: "(string \<times> jsval) list" where
  "malformed_request =
     [(''movieId'', JStr ''tt1''),
      (''showsInput'', JArr [JObj [(''date'', JStr ''2024-05-01''),
                                    (''time'', JArr [JStr ''10:00'', JStr ''xx''])]]),
      (''showPrice'', JNum 200)]"

definition tt1_empty_request :: "(string \<times> jsval) list" where
  "tt1_empty_request =
     [(''movieId'', JStr ''tt1''), (''showsInput'', JArr []), (''showPrice'', JNum 200)]"

definition tt2_request :: "(string \<times> jsval) list" where
  "tt2_request =
     [(''movieId'', JStr ''tt2''),
      (''showsInput'', JArr [JObj [(''date'', JStr ''2024-05-01''),
                                    (''time'', JArr [JStr ''10:00''])]]),
      (''showPrice'', JNum 200)]"

definition tt2_empty_request :: "(string \<times> jsval) list" where
  "tt2_empty_request =
     [(''movieId'', JStr ''tt2''), (''showsInput'', JArr []), (''showPrice'', JNum 200)]"

definition twelve_credits :: jsval where
  "twelve_credits =
     JObj [(''cast'', JArr [JNum 1, JNum 2, JNum 3, JNum 4, JNum 5, JNum 6, JNum 7, JNum 8,
                            JNum 9, JNum 10, JNum 11, JNum 12])]"

section \<open>Notions of the statements\<close>

text \<open>
  A valid entry of \<^verbatim>\<open>showsInput\<close>: an object whose \<^verbatim>\<open>date\<close> is a string and whose
  \<^verbatim>\<open>time\<close> is an array of strings. \<open>shows_of\<close> are the Show documents the claims expect
  for such an entry.
\<close>

definition valid_entry :: "jsval \<Rightarrow> string \<times> string list \<Rightarrow> bool" where
  "valid_entry v dt =
     (own_prop v ''date'' = JStr (fst dt) \<and> own_prop v ''time'' = JArr (map JStr (snd dt)))"

definition shows_of :: "env \<Rightarrow> jsval \<Rightarrow> jsval \<Rightarrow> string \<times> string list \<Rightarrow> ShowDoc list" where
  "shows_of e movieId price dt =
     map (\<lambda>t. \<lparr>movie = movieId, showDateTime = date_parse e (fst dt @ ''T'' @ t),
                showPrice = price, occupiedSeats = []\<rparr>) (snd dt)"

text \<open>The movie identifiers of the documents in a reply of \<^verbatim>\<open>getShows\<close>.\<close>

fun returned_ids :: "populated list \<Rightarrow> jsval list" where
  "returned_ids [] = []"
| "returned_ids (Null # xs) = returned_ids xs"
| "returned_ids (Doc r m # xs) = movie_id m # returned_ids xs"

text \<open>The entry \<^verbatim>\<open>getShow\<close> makes for a Show, and the UTC date of a Show.\<close>

definition entry_of :: "Show \<Rightarrow> slot" where
  "entry_of s = \<lparr>time = showDateTime s, showId = show_id s\<rparr>"

definition day_of :: "Show \<Rightarrow> string" where
  "day_of s = iso_date (time_value s)"

definition bucket_of :: "Show list \<Rightarrow> string \<Rightarrow> slot list" where
  "bucket_of found k = map entry_of (filter (\<lambda>s. day_of s = k) found)"

section \<open>The retry policy\<close>

lemma axios_get_delays:
  "length (snd (axios_get e url k)) \<le> retries - k
   \<and> (\<forall>i < length (snd (axios_get e url k)).
         snd (axios_get e url k) ! i = retryDelay (Suc (k + i)))"
proof (induction e url k rule: axios_get.induct)
  case (1 e url retryCount)
  show ?case
  proof (cases "tmdb e url retryCount")
    case (Inr d)
    then have "axios_get e url retryCount = (Inr d, [])"
      by (subst axios_get.simps) simp
    then show ?thesis by simp
  next
    case (Inl error)
    show ?thesis
    proof (cases "config error \<and> retryCount < retries \<and> retryCondition e error
                   \<and> \<not> out_of_time e url (Suc retryCount)")
      case False
      with Inl have "axios_get e url retryCount = (Inl error, [])"
        by (subst axios_get.simps) auto
      then show ?thesis by simp
    next
      case True
      obtain r ds where rec: "axios_get e url (Suc retryCount) = (r, ds)"
        by (cases "axios_get e url (Suc retryCount)")
      from "1.IH" [OF Inl True] rec
      have len: "length ds \<le> retries - Suc retryCount"
        and ih: "\<forall>i < length ds. ds ! i = retryDelay (Suc (Suc retryCount + i))"
        by simp_all
      have unfold: "axios_get e url retryCount = (r, retryDelay (Suc retryCount) # ds)"
        using Inl True rec by (subst axios_get.simps) simp
      have "length (retryDelay (Suc retryCount) # ds) \<le> retries - retryCount"
        using len True by auto
      moreover have "\<forall>i < length (retryDelay (Suc retryCount) # ds).
          (retryDelay (Suc retryCount) # ds) ! i = retryDelay (Suc (retryCount + i))"
      proof (intro allI impI)
        fix i assume "i < length (retryDelay (Suc retryCount) # ds)"
        then show "(retryDelay (Suc retryCount) # ds) ! i = retryDelay (Suc (retryCount + i))"
          using ih by (cases i) simp_all
      qed
      ultimately show ?thesis unfolding unfold by simp
    qed
  qed
qed

lemma axios_get_no_retry:
  assumes "tmdb e url k = Inl error" and "\<not> retryCondition e error"
  shows "axios_get e url k = (Inl error, [])"
  using assms by (subst axios_get.simps) simp

text \<open>
  Claim C7. The delay before retry number \<open>n\<close> is \<open>n * 1000\<close> milliseconds, a linear
  schedule: 1000, 2000 and 3000 milliseconds before the first, second and third retry.
  Every request through the client waits exactly these delays: the \<open>i\<close>-th delay it
  waits (counting from 0) is \<open>(i + 1) * 1000\<close>, and it waits at most three.
\<close>

theorem retryDelay_linear:
  "retryDelay n = n * 1000
   \<and> retryDelay 1 = 1000 \<and> retryDelay 2 = 2000 \<and> retryDelay 3 = 3000
   \<and> length (snd (axios_get e url 0)) \<le> 3
   \<and> (\<forall>i < length (snd (axios_get e url 0)). snd (axios_get e url 0) ! i = (i + 1) * 1000)"
  using axios_get_delays [of e url 0] by (simp add: retryDelay_def retries_def)

theorem retryDelay_linear_example:
  "axios_get example_env ''https://api.themoviedb.org/3/movie/now_playing'' 0
     = (Inr (JObj [(''results'', JArr [])]), [1000, 2000])"
proof -
  let ?url = "''https://api.themoviedb.org/3/movie/now_playing''"
  have retry: "retryCondition example_env unavailable" "config unavailable"
    by (simp_all add: retryCondition_def isRetryableError_def unavailable_def)
  have a2: "axios_get example_env ?url 2 = (Inr (JObj [(''results'', JArr [])]), [])"
    by (subst axios_get.simps) (simp add: example_env_def provider_def)
  have a1: "axios_get example_env ?url 1 = (Inr (JObj [(''results'', JArr [])]), [2000])"
    using retry a2
    by (subst axios_get.simps)
       (simp add: example_env_def provider_def retries_def retryDelay_def numeral_2_eq_2)
  have a0: "axios_get example_env ?url 0 = (Inr (JObj [(''results'', JArr [])]), [1000, 2000])"
    using retry a1
    by (subst axios_get.simps)
       (simp add: example_env_def provider_def retries_def retryDelay_def)
  with retryDelay_linear [of 1 example_env ?url] show ?thesis by simp
qed



lemma show_nat_404: "show_nat 404 = ''404''"
  by (simp add: show_nat.simps [of 404] show_nat.simps [of 40] show_nat.simps [of 4]
        digit_char_def)




section \<open>The examples, evaluated\<close>

lemma example_selectors:
  "number_to_string example_env = (\<lambda>n. [])"
  "date_parse example_env = utc_parse"
  "findById_fails example_env = (\<lambda>movieId. None)"
  "create_fails example_env = (\<lambda>doc. None)"
  "insertMany_fails example_env = (\<lambda>docs. None)"
  "find_fails example_env = None"
  "now example_env = 1714000000000"
  "credits_rejects_first example_env = False"
  by (simp_all add: example_env_def)

lemma utc_parse_10: "utc_parse ''2024-05-01T10:00'' = Some 1714557600000"
  by (simp add: utc_parse_def digit_of_def days_in_month_def days_from_civil_def msPerDay_def)

lemma utc_parse_14: "utc_parse ''2024-05-01T14:00'' = Some 1714572000000"
  by (simp add: utc_parse_def digit_of_def days_in_month_def days_from_civil_def msPerDay_def)

lemma utc_parse_next_day: "utc_parse ''2024-05-02T10:00'' = Some 1714644000000"
  by (simp add: utc_parse_def digit_of_def days_in_month_def days_from_civil_def msPerDay_def)

lemma utc_parse_xx: "utc_parse ''2024-05-01Txx'' = None"
  by (simp add: utc_parse_def)

lemma civil_from_days_19844: "civil_from_days 19844 = (2024, 5, 1)"
  unfolding civil_from_days_def Let_def by simp

lemma iso_date_10: "iso_date 1714557600000 = ''2024-05-01''"
  by (simp add: iso_date_def msPerDay_def civil_from_days_19844 year_string_def
        pad4_def pad3_def pad2_def digit_char_def)

lemma iso_date_14: "iso_date 1714572000000 = ''2024-05-01''"
  by (simp add: iso_date_def msPerDay_def civil_from_days_19844 year_string_def
        pad4_def pad3_def pad2_def digit_char_def)

text \<open>\<^verbatim>\<open>toISOString\<close> at known dates: the epoch, the millisecond before it, the end of
  a leap day.\<close>

lemma civil_from_days_examples:
  "civil_from_days 0 = (1970, 1, 1)"
  "civil_from_days (- 1) = (1969, 12, 31)"
  "civil_from_days 11016 = (2000, 2, 29)"
  "civil_from_days 19782 = (2024, 2, 29)"
  "civil_from_days (- 25508) = (1900, 3, 1)"
  unfolding civil_from_days_def Let_def by simp_all

lemma toISOString_epoch: "toISOString 0 = ''1970-01-01T00:00:00.000Z''"
  by (simp add: toISOString_def iso_date_def iso_time_def msPerDay_def
        civil_from_days_examples year_string_def pad4_def pad3_def pad2_def digit_char_def)

lemma toISOString_before_epoch: "toISOString (- 1) = ''1969-12-31T23:59:59.999Z''"
  by (simp add: toISOString_def iso_date_def iso_time_def msPerDay_def
        civil_from_days_examples year_string_def pad4_def pad3_def pad2_def digit_char_def)

lemma toISOString_leap_day: "toISOString 1709251199999 = ''2024-02-29T23:59:59.999Z''"
  by (simp add: toISOString_def iso_date_def iso_time_def msPerDay_def
        civil_from_days_examples year_string_def pad4_def pad3_def pad2_def digit_char_def)

lemma fetch_details:
  "makeTmdbRequest example_env ''https://api.themoviedb.org/3/movie/tt1''
     = Inr (JObj [(''title'', JStr ''Heat''), (''runtime'', JNum 170)])"
  by (simp add: makeTmdbRequest_def axios_get.simps [of _ _ 0] example_env_def provider_def)

lemma fetch_credits:
  "makeTmdbRequest example_env ''https://api.themoviedb.org/3/movie/tt1/credits''
     = Inr (JObj [(''cast'', JArr [JStr ''Al'', JStr ''Bob''])])"
  by (simp add: makeTmdbRequest_def axios_get.simps [of _ _ 0] example_env_def provider_def)

lemma fetch_tt2:
  "makeTmdbRequest example_env ''https://api.themoviedb.org/3/movie/tt2''
     = Inl ''TMDB API Error: 404 - Not found.''"
  "makeTmdbRequest example_env ''https://api.themoviedb.org/3/movie/tt2/credits''
     = Inl ''TMDB API Error: 404 - Not found.''"
proof -
  have no: "\<not> retryCondition example_env not_found"
    by (simp add: retryCondition_def isNetworkError_def isRetryableError_def not_found_def)
  have "axios_get example_env ''https://api.themoviedb.org/3/movie/tt2'' 0 = (Inl not_found, [])"
    by (rule axios_get_no_retry [OF _ no]) (simp add: example_env_def provider_def)
  then show "makeTmdbRequest example_env ''https://api.themoviedb.org/3/movie/tt2''
     = Inl ''TMDB API Error: 404 - Not found.''"
    by (simp add: makeTmdbRequest_def not_found_def nullish_def own_prop_def show_nat_404)
  have "axios_get example_env ''https://api.themoviedb.org/3/movie/tt2/credits'' 0
          = (Inl not_found, [])"
    by (rule axios_get_no_retry [OF _ no]) (simp add: example_env_def provider_def)
  then show "makeTmdbRequest example_env ''https://api.themoviedb.org/3/movie/tt2/credits''
     = Inl ''TMDB API Error: 404 - Not found.''"
    by (simp add: makeTmdbRequest_def not_found_def nullish_def own_prop_def show_nat_404)
qed

lemma find_or_create_tt1:
  "find_or_create_movie example_env empty_store (JStr ''tt1'')
     = (Inr heat_store,
        [''https://api.themoviedb.org/3/movie/tt1'',
         ''https://api.themoviedb.org/3/movie/tt1/credits''])"
  by (simp add: find_or_create_movie_def Movie_findById_def example_selectors empty_store_def
        fetch_details fetch_credits movieDetailsToSave_def get_member_def nullish_def
        own_prop_def slice_0_10_def Movie_create_def heat_def heat_store_def)

lemma find_or_create_tt2:
  "find_or_create_movie example_env empty_store (JStr ''tt2'')
     = (Inl ''TMDB API Error: 404 - Not found.'',
        [''https://api.themoviedb.org/3/movie/tt2'',
         ''https://api.themoviedb.org/3/movie/tt2/credits''])"
  by (simp add: find_or_create_movie_def Movie_findById_def example_selectors empty_store_def
        fetch_tt2)

lemma addShow_tt1:
  "addShow example_env empty_store tt1_request
     = (added, two_shows_store,
        [''https://api.themoviedb.org/3/movie/tt1'',
         ''https://api.themoviedb.org/3/movie/tt1/credits''])"
  by (simp add: addShow_def Let_def tt1_request_def own_prop_def find_or_create_tt1
        showsToCreate_def get_member_def nullish_def new_show_def dateTimeString_def
        example_selectors utc_parse_10 utc_parse_14 Show_insertMany_def next_id_def
        heat_store_def two_shows_store_def)

section \<open>addShow\<close>

lemma showDateTime_assign_ids: "map showDateTime (assign_ids n docs) = map showDateTime docs"
  by (induction docs arbitrary: n) simp_all

lemma length_assign_ids: "length (assign_ids n docs) = length docs"
  by (induction docs arbitrary: n) simp_all

lemma fields_assign_ids:
  "s \<in> set (assign_ids n docs) \<Longrightarrow>
     \<exists>d \<in> set docs. movie s = movie d \<and> showDateTime s = showDateTime d
        \<and> showPrice s = showPrice d \<and> occupiedSeats s = occupiedSeats d"
  by (induction docs arbitrary: n) auto

lemma Show_insertMany_result:
  "Show_insertMany e st docs = Inr st2 \<Longrightarrow>
     Movies st2 = Movies st \<and> Shows st2 = Shows st @ assign_ids (next_id (Shows st)) docs
     \<and> \<not> list_ex (\<lambda>d. showDateTime d = None) docs \<and> insertMany_fails e docs = None"
  by (auto simp: Show_insertMany_def split: option.splits if_splits)

lemma find_or_create_movie_Shows:
  "fst (find_or_create_movie e st movieId) = Inr st1 \<Longrightarrow> Shows st1 = Shows st"
  by (auto simp: find_or_create_movie_def Let_def Movie_create_def
           split: sum.splits option.splits if_splits)

lemma find_or_create_movie_existing:
  assumes "find (\<lambda>m. movie_id m = movieId) (Movies st) = Some m"
  shows "snd (find_or_create_movie e st movieId) = []"
    and "fst (find_or_create_movie e st movieId) = Inr st1 \<Longrightarrow> st1 = st"
  using assms
  by (auto simp: find_or_create_movie_def Movie_findById_def split: sum.splits option.splits)

lemma find_or_create_movie_fetch_fails:
  assumes "find (\<lambda>m. movie_id m = movieId) (Movies st) = None"
    and "makeTmdbRequest e (''https://api.themoviedb.org/3/movie/''
            @ to_string (number_to_string e) movieId) = Inl err1
         \<or> makeTmdbRequest e (''https://api.themoviedb.org/3/movie/''
            @ to_string (number_to_string e) movieId @ ''/credits'') = Inl err2"
  shows "\<exists>err. fst (find_or_create_movie e st movieId) = Inl err"
  using assms
  by (auto simp: find_or_create_movie_def Movie_findById_def Let_def
           split: sum.splits option.splits)

text \<open>What a call leaves in the Show collection: a successful one, the documents it
  built, each with a valid date; a failed one, nothing.\<close>

lemma addShow_success:
  assumes "success (fst (addShow e st body))"
  shows "\<exists>docs. showsToCreate e (own_prop (JObj body) ''movieId'')
                   (own_prop (JObj body) ''showPrice'') (own_prop (JObj body) ''showsInput'')
                 = Inr docs
              \<and> Shows (fst (snd (addShow e st body)))
                 = Shows st @ assign_ids (next_id (Shows st)) docs
              \<and> \<not> list_ex (\<lambda>d. showDateTime d = None) docs"
proof -
  let ?movieId = "own_prop (JObj body) ''movieId''"
  let ?price = "own_prop (JObj body) ''showPrice''"
  let ?input = "own_prop (JObj body) ''showsInput''"
  have valid: "truthy ?movieId" "truthy ?input" "truthy ?price"
    using assms by (auto simp: addShow_def Let_def missing_fields_def split: if_splits)
  obtain res requested where foc: "find_or_create_movie e st ?movieId = (res, requested)"
    by (cases "find_or_create_movie e st ?movieId")
  from assms valid foc obtain st1 where res: "res = Inr st1"
    by (cases res) (auto simp: addShow_def Let_def failed_def)
  with foc have shows1: "Shows st1 = Shows st"
    using find_or_create_movie_Shows [of e st ?movieId st1] by simp
  from assms valid foc res obtain docs
    where docs: "showsToCreate e ?movieId ?price ?input = Inr docs"
    by (cases "showsToCreate e ?movieId ?price ?input")
       (auto simp: addShow_def Let_def failed_def)
  show ?thesis
  proof (cases "docs = []")
    case True
    with valid foc res docs shows1 show ?thesis
      by (simp add: addShow_def Let_def)
  next
    case False
    with assms valid foc res docs obtain st2 where ins: "Show_insertMany e st1 docs = Inr st2"
      by (cases "Show_insertMany e st1 docs") (auto simp: addShow_def Let_def failed_def)
    from Show_insertMany_result [OF ins] shows1 valid foc res docs False ins show ?thesis
      by (simp add: addShow_def Let_def)
  qed
qed

lemma addShow_failure:
  assumes "\<not> success (fst (addShow e st body))"
  shows "Shows (fst (snd (addShow e st body))) = Shows st"
proof -
  let ?movieId = "own_prop (JObj body) ''movieId''"
  obtain res requested where foc: "find_or_create_movie e st ?movieId = (res, requested)"
    by (cases "find_or_create_movie e st ?movieId")
  have "\<And>st1. res = Inr st1 \<Longrightarrow> Shows st1 = Shows st"
    using find_or_create_movie_Shows [of e st ?movieId] foc by simp
  with assms foc show ?thesis
    by (auto simp: addShow_def Let_def added_def split: sum.splits if_splits)
qed

subsection \<open>The expansion of showsInput\<close>

lemma valid_entry_not_nullish: "valid_entry v dt \<Longrightarrow> \<not> nullish v"
  by (auto simp: valid_entry_def nullish_def own_prop_def)

lemma expand_shows_valid:
  assumes "list_all2 valid_entry entries dts"
  shows "expand_shows e movieId price entries acc
           = Inr (acc @ concat (map (shows_of e movieId price) dts))"
  using assms
proof (induction entries dts arbitrary: acc rule: list_all2_induct)
  case Nil
  then show ?case by simp
next
  case (Cons v entries dt dts)
  from Cons.hyps(1) have nn: "\<not> nullish v" by (rule valid_entry_not_nullish)
  from Cons.hyps(1) have d: "own_prop v ''date'' = JStr (fst dt)"
    and t: "own_prop v ''time'' = JArr (map JStr (snd dt))"
    by (simp_all add: valid_entry_def)
  have "map (new_show e movieId price (JStr (fst dt))) (map JStr (snd dt))
          = shows_of e movieId price dt"
    by (simp add: shows_of_def new_show_def dateTimeString_def comp_def)
  with nn d t Cons.IH show ?case
    by (simp add: get_member_def list_ex_iff)
qed

lemma expand_shows_contains:
  assumes "expand_shows e movieId price entries acc = Inr docs"
  shows "set acc \<subseteq> set docs"
    and "entry \<in> set entries \<Longrightarrow> own_prop entry ''time'' = JArr ts \<Longrightarrow> t \<in> set ts
         \<Longrightarrow> new_show e movieId price (own_prop entry ''date'') t \<in> set docs"
  using assms
proof (induction entries arbitrary: acc)
  case Nil
  { case 1 then show ?case by simp }
  { case 2 then show ?case by simp }
next
  case (Cons x entries)
  { case 1
    then obtain xs where "own_prop x ''time'' = JArr xs"
      and "expand_shows e movieId price entries
             (acc @ map (new_show e movieId price (own_prop x ''date'')) xs) = Inr docs"
      by (auto simp: get_member_def split: if_splits jsval.splits)
    from Cons.IH(1) [OF this(2)] show ?case by simp }
  { case 2
    from 2(4) obtain xs where xs: "own_prop x ''time'' = JArr xs"
      and rest: "expand_shows e movieId price entries
             (acc @ map (new_show e movieId price (own_prop x ''date'')) xs) = Inr docs"
      by (auto simp: get_member_def split: if_splits jsval.splits)
    show ?case
    proof (cases "entry = x")
      case True
      with 2(2) xs have "ts = xs" by simp
      with 2(3) True Cons.IH(1) [OF rest] show ?thesis by auto
    next
      case False
      with 2(1) have "entry \<in> set entries" by simp
      from Cons.IH(2) [OF this 2(2) 2(3) rest] show ?thesis .
    qed }
qed

lemma addShow_success_fields:
  assumes "success (fst (addShow e st body))"
  shows "truthy (own_prop (JObj body) ''movieId'')"
    and "truthy (own_prop (JObj body) ''showPrice'')"
    and "\<exists>st1. fst (find_or_create_movie e st (own_prop (JObj body) ''movieId'')) = Inr st1"
proof -
  let ?movieId = "own_prop (JObj body) ''movieId''"
  show valid: "truthy ?movieId" "truthy (own_prop (JObj body) ''showPrice'')"
    using assms by (auto simp: addShow_def Let_def missing_fields_def split: if_splits)
  have input: "truthy (own_prop (JObj body) ''showsInput'')"
    using assms by (auto simp: addShow_def Let_def missing_fields_def split: if_splits)
  obtain res requested where foc: "find_or_create_movie e st ?movieId = (res, requested)"
    by (cases "find_or_create_movie e st ?movieId")
  from assms valid input foc obtain st1 where "res = Inr st1"
    by (cases res) (auto simp: addShow_def Let_def failed_def)
  with foc show "\<exists>st1. fst (find_or_create_movie e st ?movieId) = Inr st1" by simp
qed

lemma addShow_added:
  assumes "truthy (own_prop (JObj body) ''movieId'')"
    and "truthy (own_prop (JObj body) ''showPrice'')"
    and "own_prop (JObj body) ''showsInput'' = JArr entries"
    and "list_all2 valid_entry entries dts"
    and "fst (find_or_create_movie e st (own_prop (JObj body) ''movieId'')) = Inr st1"
    and "\<forall>dt \<in> set dts. \<forall>t \<in> set (snd dt). date_parse e (fst dt @ ''T'' @ t) \<noteq> None"
    and "insertMany_fails e
           (concat (map (shows_of e (own_prop (JObj body) ''movieId'')
                           (own_prop (JObj body) ''showPrice'')) dts)) = None"
  shows "fst (addShow e st body) = added"
proof -
  let ?movieId = "own_prop (JObj body) ''movieId''"
  let ?price = "own_prop (JObj body) ''showPrice''"
  let ?docs = "concat (map (shows_of e ?movieId ?price) dts)"
  obtain requested where foc: "find_or_create_movie e st ?movieId = (Inr st1, requested)"
    using assms(5) by (cases "find_or_create_movie e st ?movieId") simp
  have docs: "showsToCreate e ?movieId ?price (JArr entries) = Inr ?docs"
    using expand_shows_valid [OF assms(4), of e ?movieId ?price "[]"]
    by (simp add: showsToCreate_def)
  have "\<not> list_ex (\<lambda>d. showDateTime d = None) ?docs"
    using assms(6) by (auto simp: list_ex_iff shows_of_def)
  with assms(7) have ins: "\<exists>st2. Show_insertMany e st1 ?docs = Inr st2"
    by (simp add: Show_insertMany_def)
  show ?thesis
  proof (cases "?docs = []")
    case True
    with assms(1-3) foc docs show ?thesis by (simp add: addShow_def Let_def)
  next
    case False
    from ins obtain st2 where "Show_insertMany e st1 ?docs = Inr st2" by blast
    with False assms(1-3) foc docs show ?thesis by (simp add: addShow_def Let_def)
  qed
qed

subsection \<open>The claims about addShow\<close>

text \<open>
  Claim C1, as the code has it. Let \<^verbatim>\<open>showsInput\<close> be valid: an array of entries, each
  with a date string and the array of its time strings (the list \<open>dts\<close> gives them).
  A valid \<^verbatim>\<open>showsInput\<close> alone does not make the call create Shows: the handler first
  checks the other two fields and finds or creates the Movie, and the storage layer
  must take the batch.

  \<^item> When \<^verbatim>\<open>movieId\<close> and \<^verbatim>\<open>showPrice\<close> are truthy, the Movie is found or created, every
    date and time string make a valid date and the storage layer accepts the batch,
    the reply is the success reply.
  \<^item> A call that reports success had truthy fields and a Movie found or created, and
    has added to the Show collection exactly one Show per time string, the sum of the
    numbers of time strings over the entries, in the order of the input. Each of them
    has the \<^verbatim>\<open>movieId\<close> and the \<^verbatim>\<open>showPrice\<close> of the request, no occupied seat, and as
    \<open>showDateTime\<close> the date made from the entry's date, a \<^verbatim>\<open>T\<close> and the time string.
  \<^item> A call that does not report success has added no Show.
\<close>

theorem addShow_creates_shows:
  assumes "own_prop (JObj body) ''showsInput'' = JArr entries"
    and "list_all2 valid_entry entries dts"
  shows "(truthy (own_prop (JObj body) ''movieId'')
          \<and> truthy (own_prop (JObj body) ''showPrice'')
          \<and> (\<exists>st1. fst (find_or_create_movie e st (own_prop (JObj body) ''movieId''))
                     = Inr st1)
          \<and> (\<forall>dt \<in> set dts. \<forall>t \<in> set (snd dt). date_parse e (fst dt @ ''T'' @ t) \<noteq> None)
          \<and> insertMany_fails e
               (concat (map (shows_of e (own_prop (JObj body) ''movieId'')
                               (own_prop (JObj body) ''showPrice'')) dts)) = None
          \<longrightarrow> fst (addShow e st body) = added)
       \<and> (success (fst (addShow e st body)) \<longrightarrow>
            truthy (own_prop (JObj body) ''movieId'')
            \<and> truthy (own_prop (JObj body) ''showPrice'')
            \<and> (\<exists>st1. fst (find_or_create_movie e st (own_prop (JObj body) ''movieId''))
                       = Inr st1)
            \<and> (\<exists>created.
                  Shows (fst (snd (addShow e st body))) = Shows st @ created
                  \<and> length created = sum_list (map (\<lambda>dt. length (snd dt)) dts)
                  \<and> map showDateTime created
                      = concat (map (\<lambda>dt. map (\<lambda>t. date_parse e (fst dt @ ''T'' @ t))
                                             (snd dt)) dts)
                  \<and> (\<forall>s \<in> set created.
                        movie s = own_prop (JObj body) ''movieId''
                        \<and> showPrice s = own_prop (JObj body) ''showPrice''
                        \<and> occupiedSeats s = [])))
       \<and> (\<not> success (fst (addShow e st body)) \<longrightarrow>
            Shows (fst (snd (addShow e st body))) = Shows st)"
proof (intro conjI impI)
  let ?movieId = "own_prop (JObj body) ''movieId''"
  let ?price = "own_prop (JObj body) ''showPrice''"
  let ?docs = "concat (map (shows_of e ?movieId ?price) dts)"
  {
    assume "truthy ?movieId \<and> truthy ?price
          \<and> (\<exists>st1. fst (find_or_create_movie e st ?movieId) = Inr st1)
          \<and> (\<forall>dt \<in> set dts. \<forall>t \<in> set (snd dt). date_parse e (fst dt @ ''T'' @ t) \<noteq> None)
          \<and> insertMany_fails e ?docs = None"
    then show "fst (addShow e st body) = added"
      using addShow_added [OF _ _ assms] by blast
  }
  {
    assume ok: "success (fst (addShow e st body))"
    from addShow_success_fields [OF ok]
    show "truthy ?movieId" and "truthy ?price"
      and "\<exists>st1. fst (find_or_create_movie e st ?movieId) = Inr st1" .
    from addShow_success [OF ok] assms(1) obtain docs where
      docs: "showsToCreate e ?movieId ?price (JArr entries) = Inr docs"
      and shows': "Shows (fst (snd (addShow e st body)))
                    = Shows st @ assign_ids (next_id (Shows st)) docs"
      by auto
    from docs expand_shows_valid [OF assms(2), of e ?movieId ?price "[]"]
    have eq: "docs = ?docs" by (simp add: showsToCreate_def)
    let ?created = "assign_ids (next_id (Shows st)) ?docs"
    have len: "length ?created = sum_list (map (\<lambda>dt. length (snd dt)) dts)"
      by (simp add: length_assign_ids length_concat comp_def shows_of_def)
    have times: "map showDateTime ?created
        = concat (map (\<lambda>dt. map (\<lambda>t. date_parse e (fst dt @ ''T'' @ t)) (snd dt)) dts)"
      by (simp add: showDateTime_assign_ids map_concat comp_def shows_of_def)
    have fields: "\<forall>s \<in> set ?created. movie s = ?movieId \<and> showPrice s = ?price
        \<and> occupiedSeats s = []"
    proof
      fix s assume "s \<in> set ?created"
      from fields_assign_ids [OF this] obtain d where d: "d \<in> set ?docs"
        and same: "movie s = movie d" "showPrice s = showPrice d"
          "occupiedSeats s = occupiedSeats d"
        by blast
      from d have "movie d = ?movieId \<and> showPrice d = ?price \<and> occupiedSeats d = []"
        by (auto simp: shows_of_def)
      then show "movie s = ?movieId \<and> showPrice s = ?price \<and> occupiedSeats s = []"
        using same by simp
    qed
    from shows' eq len times fields
    show "\<exists>created.
            Shows (fst (snd (addShow e st body))) = Shows st @ created
            \<and> length created = sum_list (map (\<lambda>dt. length (snd dt)) dts)
            \<and> map showDateTime created
                = concat (map (\<lambda>dt. map (\<lambda>t. date_parse e (fst dt @ ''T'' @ t))
                                       (snd dt)) dts)
            \<and> (\<forall>s \<in> set created.
                  movie s = ?movieId \<and> showPrice s = ?price \<and> occupiedSeats s = [])"
      by blast
  }
  {
    assume "\<not> success (fst (addShow e st body))"
    then show "Shows (fst (snd (addShow e st body))) = Shows st"
      by (rule addShow_failure)
  }
qed

text \<open>Two dates, the first with the times 10:00 and 14:00 and the second with 10:00,
  price 200, and \<^verbatim>\<open>tt1\<close> not in the store: the Movie is fetched, the call succeeds and
  three Shows exist afterwards, in the order of the input.\<close>

theorem addShow_creates_shows_example:
  "success (fst (addShow example_env empty_store two_dates_request))
   \<and> length (Shows (fst (snd (addShow example_env empty_store two_dates_request)))) = 3
   \<and> map showDateTime (Shows (fst (snd (addShow example_env empty_store two_dates_request))))
       = [Some 1714557600000, Some 1714572000000, Some 1714644000000]
   \<and> map movie (Shows (fst (snd (addShow example_env empty_store two_dates_request))))
       = [JStr ''tt1'', JStr ''tt1'', JStr ''tt1'']
   \<and> map showPrice (Shows (fst (snd (addShow example_env empty_store two_dates_request))))
       = [JNum 200, JNum 200, JNum 200]"
proof -
  let ?entries = "[JObj [(''date'', JStr ''2024-05-01''),
                         (''time'', JArr [JStr ''10:00'', JStr ''14:00''])],
                   JObj [(''date'', JStr ''2024-05-02''),
                         (''time'', JArr [JStr ''10:00''])]]"
  let ?dts = "[(''2024-05-01'', [''10:00'', ''14:00'']), (''2024-05-02'', [''10:00''])]"
  let ?after = "Shows (fst (snd (addShow example_env empty_store two_dates_request)))"
  have 1: "own_prop (JObj two_dates_request) ''showsInput'' = JArr ?entries"
    by (simp add: two_dates_request_def own_prop_def)
  have 2: "list_all2 valid_entry ?entries ?dts"
    by (simp add: valid_entry_def own_prop_def)
  have id: "own_prop (JObj two_dates_request) ''movieId'' = JStr ''tt1''"
    and price: "own_prop (JObj two_dates_request) ''showPrice'' = JNum 200"
    by (simp_all add: two_dates_request_def own_prop_def)
  have foc: "fst (find_or_create_movie example_env empty_store (JStr ''tt1'')) = Inr heat_store"
    by (simp add: find_or_create_tt1)
  have dates: "\<forall>dt \<in> set ?dts. \<forall>t \<in> set (snd dt).
                 date_parse example_env (fst dt @ ''T'' @ t) \<noteq> None"
    by (simp add: example_selectors utc_parse_10 utc_parse_14 utc_parse_next_day)
  note c1 = addShow_creates_shows [OF 1 2, of example_env empty_store, unfolded id price]
  from c1 foc dates
  have ok: "success (fst (addShow example_env empty_store two_dates_request))"
    by (simp add: example_selectors added_def)
  with c1 obtain created where
    after: "?after = created"
    and len: "length created = 3"
    and times: "map showDateTime created
                  = [Some 1714557600000, Some 1714572000000, Some 1714644000000]"
    and fields: "\<forall>s \<in> set created. movie s = JStr ''tt1'' \<and> showPrice s = JNum 200"
    by (auto simp: empty_store_def example_selectors utc_parse_10 utc_parse_14
          utc_parse_next_day)
  from len obtain a b c where "created = [a, b, c]"
    by (auto simp: length_Suc_conv numeral_3_eq_3)
  with fields have "map movie created = [JStr ''tt1'', JStr ''tt1'', JStr ''tt1'']"
    and "map showPrice created = [JNum 200, JNum 200, JNum 200]"
    by simp_all
  with ok after len times show ?thesis by simp
qed

text \<open>The claim as it was stated fails: \<^verbatim>\<open>showsInput\<close> is valid and has one time string,
  the Movie \<^verbatim>\<open>tt2\<close> is not in the store and the provider answers 404. The call reports
  a failure and no Show is created.\<close>

theorem addShow_valid_input_no_show:
  "own_prop (JObj tt2_request) ''showsInput''
     = JArr [JObj [(''date'', JStr ''2024-05-01''), (''time'', JArr [JStr ''10:00''])]]
   \<and> list_all2 valid_entry
       [JObj [(''date'', JStr ''2024-05-01''), (''time'', JArr [JStr ''10:00''])]]
       [(''2024-05-01'', [''10:00''])]
   \<and> sum_list (map (\<lambda>dt. length (snd dt)) [(''2024-05-01'', [''10:00''])]) = 1
   \<and> Shows empty_store = []
   \<and> Shows (fst (snd (addShow example_env empty_store tt2_request))) = []
   \<and> \<not> success (fst (addShow example_env empty_store tt2_request))"
proof -
  have "fst (addShow example_env empty_store tt2_request)
          = failed ''TMDB API Error: 404 - Not found.''"
    and "fst (snd (addShow example_env empty_store tt2_request)) = empty_store"
    by (simp_all add: addShow_def Let_def tt2_request_def own_prop_def find_or_create_tt2)
  then show ?thesis
    by (simp add: tt2_request_def own_prop_def valid_entry_def failed_def empty_store_def)
qed

text \<open>
  Claim C2. When one of \<^verbatim>\<open>movieId\<close>, \<^verbatim>\<open>showsInput\<close> and \<^verbatim>\<open>showPrice\<close> is absent from
  the body or falsy, the reply is the validation failure with HTTP status 400, nothing
  is requested from the provider, and the store is unchanged: no Movie and no Show is
  created.
\<close>

theorem addShow_missing_fields:
  assumes "\<not> truthy (own_prop (JObj body) ''movieId'')
           \<or> \<not> truthy (own_prop (JObj body) ''showsInput'')
           \<or> \<not> truthy (own_prop (JObj body) ''showPrice'')"
  shows "addShow e st body = (missing_fields, st, [])
         \<and> statusCode (fst (addShow e st body)) = 400
         \<and> \<not> success (fst (addShow e st body))
         \<and> Movies (fst (snd (addShow e st body))) = Movies st
         \<and> Shows (fst (snd (addShow e st body))) = Shows st"
  using assms by (auto simp: addShow_def Let_def missing_fields_def)

theorem addShow_missing_fields_example:
  "\<not> truthy (own_prop (JObj free_request) ''showPrice'')
   \<and> addShow example_env empty_store free_request = (missing_fields, empty_store, [])
   \<and> statusCode missing_fields = 400"
proof -
  have "\<not> truthy (own_prop (JObj free_request) ''showPrice'')"
    by (simp add: free_request_def own_prop_def)
  with addShow_missing_fields [of free_request example_env empty_store]
  show ?thesis by (simp add: missing_fields_def)
qed

text \<open>
  Claim C3. When a Movie with the \<^verbatim>\<open>movieId\<close> of the request is in the Movie
  collection, the call requests nothing from the metadata provider and leaves the
  Movie collection as it was.
\<close>

theorem addShow_existing_movie:
  assumes "find (\<lambda>m. movie_id m = own_prop (JObj body) ''movieId'') (Movies st) = Some m"
  shows "snd (snd (addShow e st body)) = []
         \<and> Movies (fst (snd (addShow e st body))) = Movies st"
proof -
  let ?movieId = "own_prop (JObj body) ''movieId''"
  obtain res requested where foc: "find_or_create_movie e st ?movieId = (res, requested)"
    by (cases "find_or_create_movie e st ?movieId")
  from find_or_create_movie_existing [OF assms, of e] foc
  have req: "requested = []" and same: "\<And>st1. res = Inr st1 \<Longrightarrow> st1 = st"
    by simp_all
  show ?thesis
    using foc req same
    by (auto simp: addShow_def Let_def split: sum.splits dest: Show_insertMany_result)
qed

theorem addShow_existing_movie_example:
  "find (\<lambda>m. movie_id m = JStr ''tt1'') (Movies heat_store) = Some heat
   \<and> snd (snd (addShow example_env heat_store tt1_request)) = []
   \<and> Movies (fst (snd (addShow example_env heat_store tt1_request))) = [heat]"
proof -
  have id: "own_prop (JObj tt1_request) ''movieId'' = JStr ''tt1''"
    by (simp add: tt1_request_def own_prop_def)
  have "find (\<lambda>m. movie_id m = JStr ''tt1'') (Movies heat_store) = Some heat"
    by (simp add: heat_store_def heat_def)
  with addShow_existing_movie [of tt1_request heat_store heat example_env] id
  show ?thesis by (simp add: heat_store_def)
qed

text \<open>
  Claim C4. When no Movie with the \<^verbatim>\<open>movieId\<close> of the request is in the Movie collection
  and the request for the details or the request for the credits fails, the reply is
  a failure and the store is unchanged: no Movie and no Show is created.
\<close>

theorem addShow_fetch_fails:
  assumes "find (\<lambda>m. movie_id m = own_prop (JObj body) ''movieId'') (Movies st) = None"
    and "makeTmdbRequest e (''https://api.themoviedb.org/3/movie/''
            @ to_string (number_to_string e) (own_prop (JObj body) ''movieId'')) = Inl err1
         \<or> makeTmdbRequest e (''https://api.themoviedb.org/3/movie/''
            @ to_string (number_to_string e) (own_prop (JObj body) ''movieId'') @ ''/credits'')
            = Inl err2"
  shows "\<not> success (fst (addShow e st body)) \<and> fst (snd (addShow e st body)) = st"
proof -
  let ?movieId = "own_prop (JObj body) ''movieId''"
  from find_or_create_movie_fetch_fails [OF assms]
  obtain err where "fst (find_or_create_movie e st ?movieId) = Inl err" by blast
  then show ?thesis
    by (auto simp: addShow_def Let_def missing_fields_def failed_def split: prod.splits)
qed

theorem addShow_fetch_fails_example:
  "makeTmdbRequest example_env ''https://api.themoviedb.org/3/movie/tt2''
     = Inl ''TMDB API Error: 404 - Not found.''
   \<and> \<not> success (fst (addShow example_env empty_store tt2_request))
   \<and> fst (snd (addShow example_env empty_store tt2_request)) = empty_store"
proof -
  have id: "own_prop (JObj tt2_request) ''movieId'' = JStr ''tt2''"
    by (simp add: tt2_request_def own_prop_def)
  have "find (\<lambda>m. movie_id m = JStr ''tt2'') (Movies empty_store) = None"
    by (simp add: empty_store_def)
  with addShow_fetch_fails [of tt2_request empty_store example_env
         "''TMDB API Error: 404 - Not found.''"] id fetch_tt2(1)
  show ?thesis by (simp add: example_selectors)
qed

text \<open>
  Claim C9. A Show is stored only with a valid date: when every Show in the collection
  has one, so has every Show after the call. When \<^verbatim>\<open>showsInput\<close> holds a time string
  from which, with the date of its entry, the runtime makes the invalid date, the call
  reports a failure and stores no Show. The handler itself does not look at the date
  it builds: the document with the invalid date is in the batch it hands to
  \<^verbatim>\<open>insertMany\<close> (\<open>expand_shows_contains\<close>), the storage layer refuses the batch, and
  the handler reports that error.
\<close>

theorem addShow_malformed_time:
  "(list_all (\<lambda>s. showDateTime s \<noteq> None) (Shows st)
      \<longrightarrow> list_all (\<lambda>s. showDateTime s \<noteq> None) (Shows (fst (snd (addShow e st body)))))
   \<and> (own_prop (JObj body) ''showsInput'' = JArr entries \<and> entry \<in> set entries
        \<and> own_prop entry ''time'' = JArr ts \<and> t \<in> set ts
        \<and> date_parse e (dateTimeString e (own_prop entry ''date'') t) = None
      \<longrightarrow> \<not> success (fst (addShow e st body))
          \<and> Shows (fst (snd (addShow e st body))) = Shows st)"
proof (intro conjI impI)
  assume inv: "list_all (\<lambda>s. showDateTime s \<noteq> None) (Shows st)"
  show "list_all (\<lambda>s. showDateTime s \<noteq> None) (Shows (fst (snd (addShow e st body))))"
  proof (cases "success (fst (addShow e st body))")
    case False
    from addShow_failure [OF this] inv show ?thesis by simp
  next
    case True
    from addShow_success [OF this] obtain docs where
      "Shows (fst (snd (addShow e st body))) = Shows st @ assign_ids (next_id (Shows st)) docs"
      and "\<not> list_ex (\<lambda>d. showDateTime d = None) docs"
      by blast
    moreover have "list_all (\<lambda>s. showDateTime s \<noteq> None) (assign_ids n docs)
        = list_all (\<lambda>d. showDateTime d \<noteq> None) docs" for n
      by (induction docs arbitrary: n) simp_all
    ultimately show ?thesis using inv by (auto simp: list_all_iff list_ex_iff)
  qed
next
  assume bad: "own_prop (JObj body) ''showsInput'' = JArr entries \<and> entry \<in> set entries
        \<and> own_prop entry ''time'' = JArr ts \<and> t \<in> set ts
        \<and> date_parse e (dateTimeString e (own_prop entry ''date'') t) = None"
  show no: "\<not> success (fst (addShow e st body))"
  proof
    assume "success (fst (addShow e st body))"
    from addShow_success [OF this] bad obtain docs where
      docs: "expand_shows e (own_prop (JObj body) ''movieId'')
               (own_prop (JObj body) ''showPrice'') entries [] = Inr docs"
      and valid: "\<not> list_ex (\<lambda>d. showDateTime d = None) docs"
      by (auto simp: showsToCreate_def)
    from expand_shows_contains(2) [OF docs, of entry ts t] bad
    have "new_show e (own_prop (JObj body) ''movieId'') (own_prop (JObj body) ''showPrice'')
            (own_prop entry ''date'') t \<in> set docs"
      by simp
    moreover from bad have "showDateTime (new_show e (own_prop (JObj body) ''movieId'')
            (own_prop (JObj body) ''showPrice'') (own_prop entry ''date'') t) = None"
      by (simp add: new_show_def)
    ultimately show False using valid by (auto simp: list_ex_iff)
  qed
  from addShow_failure [OF no] show "Shows (fst (snd (addShow e st body))) = Shows st" .
qed

theorem addShow_malformed_time_example:
  "utc_parse ''2024-05-01Txx'' = None
   \<and> \<not> success (fst (addShow example_env empty_store malformed_request))
   \<and> Shows (fst (snd (addShow example_env empty_store malformed_request))) = []"
proof -
  let ?entry = "JObj [(''date'', JStr ''2024-05-01''),
                      (''time'', JArr [JStr ''10:00'', JStr ''xx''])]"
  have "own_prop (JObj malformed_request) ''showsInput'' = JArr [?entry]
        \<and> ?entry \<in> set [?entry]
        \<and> own_prop ?entry ''time'' = JArr [JStr ''10:00'', JStr ''xx'']
        \<and> JStr ''xx'' \<in> set [JStr ''10:00'', JStr ''xx'']
        \<and> date_parse example_env
            (dateTimeString example_env (own_prop ?entry ''date'') (JStr ''xx'')) = None"
    by (simp add: malformed_request_def own_prop_def dateTimeString_def example_selectors
          utc_parse_xx)
  with addShow_malformed_time [of empty_store example_env malformed_request "[?entry]" ?entry
         "[JStr ''10:00'', JStr ''xx'']" "JStr ''xx''"]
  show ?thesis by (simp add: utc_parse_xx empty_store_def)
qed

text \<open>
  Claim C10, as the code has it. When \<^verbatim>\<open>movieId\<close> and \<^verbatim>\<open>showPrice\<close> are truthy and
  \<^verbatim>\<open>showsInput\<close> is the empty array, the input passes validation (the reply has status
  200, not 400) and no Show is created, whatever the storage layer would do with a
  batch. The reply is a success exactly when the step that finds or creates the Movie
  succeeds; it does whenever the Movie is in the collection and the lookup does not
  fail, and then nothing at all changes and nothing is requested.
\<close>

theorem addShow_empty_showsInput:
  assumes "truthy (own_prop (JObj body) ''movieId'')"
    and "truthy (own_prop (JObj body) ''showPrice'')"
    and "own_prop (JObj body) ''showsInput'' = JArr []"
  shows "statusCode (fst (addShow e st body)) = 200
         \<and> Shows (fst (snd (addShow e st body))) = Shows st
         \<and> (success (fst (addShow e st body))
              \<longleftrightarrow> (\<exists>st1. fst (find_or_create_movie e st (own_prop (JObj body) ''movieId''))
                           = Inr st1))
         \<and> (\<forall>m. find (\<lambda>m. movie_id m = own_prop (JObj body) ''movieId'') (Movies st) = Some m
                  \<and> findById_fails e (own_prop (JObj body) ''movieId'') = None
               \<longrightarrow> addShow e st body = (added, st, []))"
proof -
  let ?movieId = "own_prop (JObj body) ''movieId''"
  obtain res requested where foc: "find_or_create_movie e st ?movieId = (res, requested)"
    by (cases "find_or_create_movie e st ?movieId")
  have shows1: "\<And>st1. res = Inr st1 \<Longrightarrow> Shows st1 = Shows st"
    using find_or_create_movie_Shows [of e st ?movieId] foc by simp
  have r: "addShow e st body
        = (case res of Inl err \<Rightarrow> (failed err, st, requested)
                     | Inr st1 \<Rightarrow> (added, st1, requested))"
    using assms foc by (simp add: addShow_def Let_def showsToCreate_def split: sum.splits)
  have "statusCode (fst (addShow e st body)) = 200"
    unfolding r by (simp add: failed_def added_def split: sum.splits)
  moreover have "Shows (fst (snd (addShow e st body))) = Shows st"
    unfolding r using shows1 by (simp split: sum.splits)
  moreover have "success (fst (addShow e st body))
      \<longleftrightarrow> (\<exists>st1. fst (find_or_create_movie e st ?movieId) = Inr st1)"
    unfolding r using foc by (simp add: failed_def added_def split: sum.splits)
  moreover have "\<forall>m. find (\<lambda>m. movie_id m = ?movieId) (Movies st) = Some m
                  \<and> findById_fails e ?movieId = None
               \<longrightarrow> addShow e st body = (added, st, [])"
    unfolding r using foc
    by (auto simp: find_or_create_movie_def Movie_findById_def)
  ultimately show ?thesis by blast
qed

theorem addShow_empty_showsInput_example:
  "addShow example_env heat_store tt1_empty_request = (added, heat_store, [])"
proof -
  have "truthy (own_prop (JObj tt1_empty_request) ''movieId'')"
    and "truthy (own_prop (JObj tt1_empty_request) ''showPrice'')"
    and "own_prop (JObj tt1_empty_request) ''showsInput'' = JArr []"
    by (simp_all add: tt1_empty_request_def own_prop_def)
  from addShow_empty_showsInput [OF this, of example_env heat_store]
  show ?thesis
    by (simp add: tt1_empty_request_def own_prop_def heat_store_def heat_def example_selectors)
qed

text \<open>The claim as it was stated fails when the Movie is not in the collection and the
  provider does not know it: the fields are truthy, \<^verbatim>\<open>showsInput\<close> is the empty array,
  and the reply is a failure.\<close>

theorem addShow_empty_showsInput_unknown_movie:
  "truthy (own_prop (JObj tt2_empty_request) ''movieId'')
   \<and> truthy (own_prop (JObj tt2_empty_request) ''showPrice'')
   \<and> own_prop (JObj tt2_empty_request) ''showsInput'' = JArr []
   \<and> addShow example_env empty_store tt2_empty_request
       = (failed ''TMDB API Error: 404 - Not found.'', empty_store,
          [''https://api.themoviedb.org/3/movie/tt2'',
           ''https://api.themoviedb.org/3/movie/tt2/credits''])
   \<and> \<not> success (fst (addShow example_env empty_store tt2_empty_request))"
  by (simp add: addShow_def Let_def tt2_empty_request_def own_prop_def find_or_create_tt2
        failed_def)

subsection \<open>Further properties of addShow\<close>

text \<open>
  The Movie that is built has the identifier of the request and a tagline that is the
  provider's or the empty string; its cast is the first ten entries of the credits.
\<close>

lemma movieDetailsToSave_id:
  "movieDetailsToSave movieId movieDetails movieCredits = Inr doc \<Longrightarrow> movie_id doc = movieId"
  by (auto simp: movieDetailsToSave_def split: sum.splits)

theorem movieDetailsToSave_fields:
  assumes "movieDetailsToSave movieId movieDetails movieCredits = Inr doc"
  shows "movie_id doc = movieId
         \<and> truthy (tagline doc) = (tagline doc \<noteq> JStr [])
         \<and> (\<forall>xs. casts doc = JArr xs \<longrightarrow>
               length xs \<le> 10
               \<and> (\<exists>cast. own_prop movieCredits ''cast'' = JArr cast \<and> xs = take 10 cast))"
  using assms
  by (auto simp: movieDetailsToSave_def get_member_def slice_0_10_def
           split: if_splits sum.splits jsval.splits)

theorem movieDetailsToSave_fields_example:
  "(case movieDetailsToSave (JStr ''tt1'') (JObj [(''title'', JStr ''Heat'')]) twelve_credits of
      Inl err \<Rightarrow> False
    | Inr doc \<Rightarrow>
        casts doc = JArr [JNum 1, JNum 2, JNum 3, JNum 4, JNum 5, JNum 6, JNum 7, JNum 8,
                          JNum 9, JNum 10]
        \<and> tagline doc = JStr [])"
proof -
  obtain doc where doc: "movieDetailsToSave (JStr ''tt1'') (JObj [(''title'', JStr ''Heat'')])
                           twelve_credits = Inr doc"
    by (simp add: movieDetailsToSave_def get_member_def nullish_def own_prop_def
          slice_0_10_def twelve_credits_def)
  from movieDetailsToSave_fields [OF doc] doc show ?thesis
    by (auto simp: movieDetailsToSave_def get_member_def nullish_def own_prop_def
          slice_0_10_def twelve_credits_def)
qed

text \<open>
  After a call that reports success, the Movie collection holds a Movie with the
  \<^verbatim>\<open>movieId\<close> of the request: the \<open>movie\<close> of every Show it created resolves.
\<close>

lemma find_or_create_movie_resolves:
  assumes "fst (find_or_create_movie e st movieId) = Inr st1"
  shows "\<exists>m \<in> set (Movies st1). movie_id m = movieId"
proof (cases "find (\<lambda>m. movie_id m = movieId) (Movies st)")
  case (Some m)
  then have "m \<in> set (Movies st)" "movie_id m = movieId"
    by (auto simp: find_Some_iff)
  moreover from Some assms have "st1 = st"
    by (auto simp: find_or_create_movie_def Movie_findById_def split: option.splits)
  ultimately show ?thesis by auto
next
  case None
  with assms obtain details credits doc where
    "movieDetailsToSave movieId details credits = Inr doc" and "Movie_create e st doc = Inr st1"
    by (auto simp: find_or_create_movie_def Movie_findById_def Let_def
             split: option.splits sum.splits if_splits)
  then show ?thesis
    using movieDetailsToSave_id [of movieId details credits doc]
    by (auto simp: Movie_create_def split: option.splits)
qed

theorem addShow_movie_resolves:
  assumes "success (fst (addShow e st body))"
  shows "\<exists>m \<in> set (Movies (fst (snd (addShow e st body)))).
           movie_id m = own_prop (JObj body) ''movieId''"
proof -
  let ?movieId = "own_prop (JObj body) ''movieId''"
  obtain res requested where foc: "find_or_create_movie e st ?movieId = (res, requested)"
    by (cases "find_or_create_movie e st ?movieId")
  from assms foc obtain st1 where res: "res = Inr st1"
    by (cases res) (auto simp: addShow_def Let_def failed_def missing_fields_def split: if_splits)
  from find_or_create_movie_resolves [of e st ?movieId st1] foc res
  have m: "\<exists>m \<in> set (Movies st1). movie_id m = ?movieId" by simp
  have "Movies (fst (snd (addShow e st body))) = Movies st1"
    using assms foc res
    by (auto simp: addShow_def Let_def failed_def missing_fields_def
             split: if_splits sum.splits dest: Show_insertMany_result)
  with m show ?thesis by simp
qed

theorem addShow_movie_resolves_example:
  "heat \<in> set (Movies (fst (snd (addShow example_env empty_store tt1_request))))
   \<and> movie_id heat = JStr ''tt1''"
proof -
  have "success (fst (addShow example_env empty_store tt1_request))"
    by (simp add: addShow_tt1 added_def)
  from addShow_movie_resolves [OF this] show ?thesis
    by (simp add: addShow_tt1 two_shows_store_def heat_def)
qed

section \<open>getShows\<close>

lemma assigned_Doc:
  "assigned ms r ident = Doc r' m \<Longrightarrow>
     movie_id m = ident \<and> r \<le> r' \<and> r' < r + length ms \<and> ms ! (r' - r) = m"
proof (induction ms arbitrary: r)
  case Nil
  then show ?case by simp
next
  case (Cons a ms)
  show ?case
  proof (cases "assigned ms (Suc r) ident")
    case Null
    with Cons.prems show ?thesis by (auto split: if_splits)
  next
    case (Doc r'' m'')
    with Cons.prems have "r'' = r'" "m'' = m" by simp_all
    with Doc Cons.IH [of "Suc r"] have "movie_id m = ident" "Suc r \<le> r'"
      "r' < Suc r + length ms" "ms ! (r' - Suc r) = m"
      by simp_all
    then show ?thesis by (simp add: nth_Cons')
  qed
qed

text \<open>Two Shows get the same object exactly when they get the same value: an address
  holds one document, and a document is assigned to one identifier.\<close>

lemma assigned_same_address:
  assumes "assigned ms r i = Doc r' m" and "assigned ms r j = Doc r' m'"
  shows "m = m' \<and> i = j"
  using assigned_Doc [OF assms(1)] assigned_Doc [OF assms(2)] by auto

lemma same_value_assigned:
  "same_value (assigned ms r i) (assigned ms r j) \<longleftrightarrow> assigned ms r i = assigned ms r j"
proof (cases "assigned ms r i")
  case Null
  then show ?thesis by (cases "assigned ms r j") simp_all
next
  case (Doc r1 m1)
  show ?thesis
  proof (cases "assigned ms r j")
    case Null
    with Doc show ?thesis by simp
  next
    case (Doc r2 m2)
    with \<open>assigned ms r i = Doc r1 m1\<close> assigned_same_address [of ms r i r1 m1 j m2]
    show ?thesis by auto
  qed
qed

lemma foldl_Set_add:
  assumes "\<forall>x \<in> set acc \<union> set xs. \<forall>y \<in> set acc \<union> set xs. same_value x y \<longleftrightarrow> x = y"
    and "distinct acc"
  shows "distinct (foldl Set_add acc xs) \<and> set (foldl Set_add acc xs) = set acc \<union> set xs"
  using assms
proof (induction xs arbitrary: acc)
  case Nil
  then show ?case by simp
next
  case (Cons x xs)
  have mem: "list_ex (same_value x) acc \<longleftrightarrow> x \<in> set acc"
    using Cons.prems(1) by (auto simp: list_ex_iff)
  have d: "distinct (Set_add acc x)" and s: "set (Set_add acc x) = insert x (set acc)"
    using Cons.prems(2) mem by (auto simp: Set_add_def)
  have "\<forall>a \<in> set (Set_add acc x) \<union> set xs. \<forall>b \<in> set (Set_add acc x) \<union> set xs.
          same_value a b \<longleftrightarrow> a = b"
    using Cons.prems(1) s by simp
  from Cons.IH [OF this d] s show ?case by simp
qed

lemma returned_ids_set:
  "set (returned_ids ms) = {movie_id m | r m. Doc r m \<in> set ms}"
  by (induction ms rule: returned_ids.induct) auto

lemma distinct_returned_ids:
  assumes "distinct ms" and "\<forall>x \<in> set ms. \<exists>i. x = assigned docs r0 i"
  shows "distinct (returned_ids ms)"
  using assms
proof (induction ms rule: returned_ids.induct)
  case 1
  then show ?case by simp
next
  case (2 xs)
  then show ?case by simp
next
  case (3 r m xs)
  have "movie_id m \<notin> set (returned_ids xs)"
  proof
    assume "movie_id m \<in> set (returned_ids xs)"
    then obtain r' m' where in_xs: "Doc r' m' \<in> set xs" and same: "movie_id m' = movie_id m"
      by (auto simp: returned_ids_set)
    from "3.prems"(2) obtain i where i: "Doc r m = assigned docs r0 i" by auto
    from "3.prems"(2) in_xs obtain j where j: "Doc r' m' = assigned docs r0 j" by auto
    from assigned_Doc [OF i [symmetric]] assigned_Doc [OF j [symmetric]] same
    have "i = j" by simp
    with i j have "Doc r m = Doc r' m'" by simp
    with in_xs "3.prems"(1) show False by simp
  qed
  with 3 show ?case by simp
qed

text \<open>The \<^verbatim>\<open>Set\<close> compares addresses, not identifiers: two objects at different
  addresses both stay, whatever they hold. That no identifier is returned twice rests
  on \<open>populate\<close> giving the Shows of one Movie one object.\<close>

lemma new_Set_by_address: "new_Set [Doc 0 m, Doc 1 m] = [Doc 0 m, Doc 1 m]"
  by (simp add: new_Set_def Set_add_def)

text \<open>
  Claim C5. Whatever the Show and Movie collections hold, the list that \<^verbatim>\<open>getShows\<close>
  returns has no two Movies with the same identifier, and every Movie in it is a stored
  Movie that is the \<open>movie\<close> of at least one Show whose \<open>showDateTime\<close> is not before now.
  (The list is returned whenever the query does not fail.)
\<close>

theorem getShows_distinct_upcoming:
  assumes "find_fails e = None"
  shows "\<exists>ms. getShows e st = Inr ms
           \<and> distinct (returned_ids ms)
           \<and> (\<forall>r m. Doc r m \<in> set ms \<longrightarrow>
                 m \<in> set (Movies st)
                 \<and> (\<exists>s \<in> set (Shows st). movie s = movie_id m
                       \<and> (\<exists>t. showDateTime s = Some t \<and> now e \<le> t)))"
proof -
  let ?found = "sort_key time_value (filter (upcoming e) (Shows st))"
  let ?docs = "referenced (Movies st) ?found"
  let ?xs = "map snd (populate st ?found)"
  let ?ms = "new_Set ?xs"
  have xs: "?xs = map (\<lambda>s. assigned ?docs 0 (movie s)) ?found"
    by (simp add: populate_def comp_def)
  have img: "\<forall>x \<in> set ?xs. \<exists>i. x = assigned ?docs 0 i"
    unfolding xs by auto
  then have "\<forall>x \<in> set [] \<union> set ?xs. \<forall>y \<in> set [] \<union> set ?xs. same_value x y \<longleftrightarrow> x = y"
    using same_value_assigned [of ?docs 0] by (metis Un_iff empty_iff empty_set)
  from foldl_Set_add [OF this] have dist: "distinct ?ms" and set_ms: "set ?ms = set ?xs"
    by (simp_all add: new_Set_def)
  from img set_ms have "\<forall>x \<in> set ?ms. \<exists>i. x = assigned ?docs 0 i" by simp
  from distinct_returned_ids [OF dist this] have ids: "distinct (returned_ids ?ms)" .
  have from_show: "\<forall>r m. Doc r m \<in> set ?ms \<longrightarrow>
                 m \<in> set (Movies st)
                 \<and> (\<exists>s \<in> set (Shows st). movie s = movie_id m
                       \<and> (\<exists>t. showDateTime s = Some t \<and> now e \<le> t))"
  proof (intro allI impI)
    fix r m assume "Doc r m \<in> set ?ms"
    with set_ms xs obtain s where s: "s \<in> set ?found"
      and a: "assigned ?docs 0 (movie s) = Doc r m"
      by auto
    from s have in_shows: "s \<in> set (Shows st)" and up: "upcoming e s" by simp_all
    from assigned_Doc [OF a] have id: "movie_id m = movie s"
      and "r < length ?docs" "?docs ! r = m"
      by simp_all
    then have "m \<in> set ?docs" by (metis nth_mem)
    then have "m \<in> set (Movies st)" by (simp add: referenced_def)
    moreover from up obtain t where "showDateTime s = Some t" "now e \<le> t"
      by (auto simp: upcoming_def split: option.splits)
    ultimately show "m \<in> set (Movies st)
                 \<and> (\<exists>s \<in> set (Shows st). movie s = movie_id m
                       \<and> (\<exists>t. showDateTime s = Some t \<and> now e \<le> t))"
      using in_shows id by auto
  qed
  have "getShows e st = Inr ?ms"
    using assms by (simp add: getShows_def Let_def)
  with ids from_show show ?thesis by blast
qed

text \<open>Two upcoming Shows of one Movie: the Movie is returned once.\<close>

theorem getShows_distinct_upcoming_example:
  "getShows example_env two_shows_store = Inr [Doc 0 heat]
   \<and> distinct (returned_ids [Doc 0 heat])"
proof -
  have "getShows example_env two_shows_store = Inr [Doc 0 heat]"
    by (simp add: getShows_def Let_def example_selectors two_shows_store_def upcoming_def
          time_value_def populate_def referenced_def heat_def new_Set_def Set_add_def)
  with getShows_distinct_upcoming [of example_env two_shows_store]
  show ?thesis by (simp add: example_selectors)
qed

section \<open>getShow\<close>

lemma digit_char_digit: "digit_char n \<in> set ''0123456789''"
proof -
  have "n mod 10 < length ''0123456789''" by simp
  then show ?thesis unfolding digit_char_def by (rule nth_mem)
qed

lemma digit_char_neq:
  "digit_char n \<noteq> CHR ''T''" "CHR ''T'' \<noteq> digit_char n"
  using digit_char_digit [of n] by auto

lemma T_notin_year_string: "CHR ''T'' \<notin> set (year_string y)"
  by (simp add: year_string_def pad4_def pad3_def pad6_def digit_char_neq)

lemma T_notin_iso_date: "CHR ''T'' \<notin> set (iso_date t)"
proof -
  obtain y m d where "civil_from_days (t div msPerDay) = (y, m, d)"
    by (cases "civil_from_days (t div msPerDay)")
  then show ?thesis
    by (simp add: iso_date_def pad2_def digit_char_neq T_notin_year_string)
qed

text \<open>\<^verbatim>\<open>toISOString().split("T")[0]\<close> is the date part of the string.\<close>

lemma date_key_iso_date: "date_key t = iso_date t"
proof -
  have "\<And>c. c \<in> set (iso_date t) \<Longrightarrow> c \<noteq> CHR ''T''"
    using T_notin_iso_date [of t] by auto
  then have "takeWhile (\<lambda>c. c \<noteq> CHR ''T'') (iso_date t @ CHR ''T'' # rest)
               = iso_date t @ takeWhile (\<lambda>c. c \<noteq> CHR ''T'') (CHR ''T'' # rest)" for rest
    by (rule takeWhile_append2)
  then show ?thesis by (simp add: date_key_def toISOString_def)
qed

lemma hyphen_in_iso_date: "CHR ''-'' \<in> set (iso_date t)"
proof -
  obtain y m d where "civil_from_days (t div msPerDay) = (y, m, d)"
    by (cases "civil_from_days (t div msPerDay)")
  then show ?thesis by (simp add: iso_date_def)
qed

text \<open>A date is never the name of a property that a plain object inherits.\<close>

lemma iso_date_not_inherited: "iso_date t \<notin> set Object_prototype"
proof
  assume "iso_date t \<in> set Object_prototype"
  moreover have "\<forall>n \<in> set Object_prototype. CHR ''-'' \<notin> set n"
    by (simp add: Object_prototype_def)
  ultimately show False using hyphen_in_iso_date [of t] by blast
qed

lemma group_shows_buckets:
  assumes "\<forall>s \<in> set found. showDateTime s \<noteq> None" and "distinct (map fst acc)"
  shows "\<exists>res. group_shows found acc = Inr res \<and> distinct (map fst res)
           \<and> (\<forall>k. map_of res k =
                 (case map_of acc k of
                    None \<Rightarrow> if bucket_of found k = [] then None else Some (bucket_of found k)
                  | Some b \<Rightarrow> Some (b @ bucket_of found k)))"
  using assms
proof (induction found arbitrary: acc)
  case Nil
  then show ?case by (auto simp: bucket_of_def split: option.splits)
next
  case (Cons s rest)
  from Cons.prems(1) obtain t where t: "showDateTime s = Some t" by auto
  then have day: "day_of s = iso_date t" by (simp add: day_of_def time_value_def)
  let ?date = "iso_date t"
  let ?entry = "entry_of s"
  have rest_valid: "\<forall>s \<in> set rest. showDateTime s \<noteq> None" using Cons.prems(1) by simp
  have buckets: "bucket_of (s # rest) k
      = (if k = ?date then ?entry # bucket_of rest k else bucket_of rest k)" for k
    using day by (auto simp: bucket_of_def)
  show ?case
  proof (cases "map_of acc ?date")
    case (Some bucket)
    let ?acc = "AList.update ?date (bucket @ [?entry]) acc"
    have step: "group_shows (s # rest) acc = group_shows rest ?acc"
      using t Some by (simp add: date_key_iso_date Let_def entry_of_def)
    have "distinct (map fst ?acc)" using Cons.prems(2) by (simp add: distinct_update)
    from Cons.IH [OF rest_valid this] obtain res where
      res: "group_shows rest ?acc = Inr res" "distinct (map fst res)"
      and lookup: "\<And>k. map_of res k =
                 (case map_of ?acc k of
                    None \<Rightarrow> if bucket_of rest k = [] then None else Some (bucket_of rest k)
                  | Some b \<Rightarrow> Some (b @ bucket_of rest k))"
      by blast
    have "map_of res k =
                 (case map_of acc k of
                    None \<Rightarrow> if bucket_of (s # rest) k = [] then None
                            else Some (bucket_of (s # rest) k)
                  | Some b \<Rightarrow> Some (b @ bucket_of (s # rest) k))" for k
      using lookup [of k] Some
      by (cases "k = ?date") (auto simp: update_conv' buckets split: option.splits)
    with res step show ?thesis by auto
  next
    case None
    let ?acc = "AList.update ?date [?entry] acc"
    have step: "group_shows (s # rest) acc = group_shows rest ?acc"
      using t None iso_date_not_inherited [of t]
      by (simp add: date_key_iso_date Let_def entry_of_def)
    have "distinct (map fst ?acc)" using Cons.prems(2) by (simp add: distinct_update)
    from Cons.IH [OF rest_valid this] obtain res where
      res: "group_shows rest ?acc = Inr res" "distinct (map fst res)"
      and lookup: "\<And>k. map_of res k =
                 (case map_of ?acc k of
                    None \<Rightarrow> if bucket_of rest k = [] then None else Some (bucket_of rest k)
                  | Some b \<Rightarrow> Some (b @ bucket_of rest k))"
      by blast
    have "map_of res k =
                 (case map_of acc k of
                    None \<Rightarrow> if bucket_of (s # rest) k = [] then None
                            else Some (bucket_of (s # rest) k)
                  | Some b \<Rightarrow> Some (b @ bucket_of (s # rest) k))" for k
      using lookup [of k] None
      by (cases "k = ?date") (auto simp: update_conv' buckets split: option.splits)
    with res step show ?thesis by auto
  qed
qed

text \<open>
  Claim C6. For every \<^verbatim>\<open>movieId\<close> and every state of the store, \<^verbatim>\<open>getShow\<close> (which
  replies whenever the queries do not fail) returns date buckets with distinct keys such
  that every Show of that movie whose \<open>showDateTime\<close> is not before now has its entry
  in the bucket keyed by the UTC date \<^verbatim>\<open>YYYY-MM-DD\<close> of its \<open>showDateTime\<close> and in no
  other bucket. A bucket holds nothing else: it is the list of the entries of these
  Shows of that date, in the order of the collection.
\<close>

theorem getShow_groups_by_date:
  assumes "find_fails e = None" and "findById_fails e movieId = None"
  shows "\<exists>found_movie dateTime.
           getShow e st movieId = Inr (found_movie, dateTime)
           \<and> distinct (map fst dateTime)
           \<and> (\<forall>s t. s \<in> set (Shows st) \<and> movie s = movieId
                     \<and> showDateTime s = Some t \<and> now e \<le> t
                 \<longrightarrow> (\<forall>k. (\<exists>bucket. map_of dateTime k = Some bucket
                                \<and> \<lparr>time = Some t, showId = show_id s\<rparr> \<in> set bucket)
                          \<longleftrightarrow> k = iso_date t))
           \<and> (\<forall>k bucket. map_of dateTime k = Some bucket
                 \<longrightarrow> bucket = map entry_of
                       (filter (\<lambda>s. movie s = movieId \<and> upcoming e s \<and> day_of s = k)
                          (Shows st)))"
proof -
  let ?found = "filter (\<lambda>s. movie s = movieId \<and> upcoming e s) (Shows st)"
  have valid: "\<forall>s \<in> set ?found. showDateTime s \<noteq> None"
    by (auto simp: upcoming_def split: option.splits)
  from group_shows_buckets [OF valid, of "[]"] obtain dateTime where
    grouped: "group_shows ?found [] = Inr dateTime" and keys: "distinct (map fst dateTime)"
    and lookup: "\<And>k. map_of dateTime k
                   = (if bucket_of ?found k = [] then None else Some (bucket_of ?found k))"
    by auto
  obtain found_movie where movie: "Movie_findById e st movieId = Inr found_movie"
    using assms(2) by (simp add: Movie_findById_def)
  have reply: "getShow e st movieId = Inr (found_movie, dateTime)"
    using assms(1) movie grouped by (simp add: getShow_def Let_def)
  have one: "\<forall>s t. s \<in> set (Shows st) \<and> movie s = movieId
                     \<and> showDateTime s = Some t \<and> now e \<le> t
                 \<longrightarrow> (\<forall>k. (\<exists>bucket. map_of dateTime k = Some bucket
                                \<and> \<lparr>time = Some t, showId = show_id s\<rparr> \<in> set bucket)
                          \<longleftrightarrow> k = iso_date t)"
  proof (intro allI impI)
    fix s t k
    assume s: "s \<in> set (Shows st) \<and> movie s = movieId
                 \<and> showDateTime s = Some t \<and> now e \<le> t"
    then have in_found: "s \<in> set ?found" by (simp add: upcoming_def)
    from s have day: "day_of s = iso_date t"
      and entry: "entry_of s = \<lparr>time = Some t, showId = show_id s\<rparr>"
      by (simp_all add: day_of_def time_value_def entry_of_def)
    show "(\<exists>bucket. map_of dateTime k = Some bucket
                                \<and> \<lparr>time = Some t, showId = show_id s\<rparr> \<in> set bucket)
                          \<longleftrightarrow> k = iso_date t"
    proof
      assume "\<exists>bucket. map_of dateTime k = Some bucket
                                \<and> \<lparr>time = Some t, showId = show_id s\<rparr> \<in> set bucket"
      then have "\<lparr>time = Some t, showId = show_id s\<rparr> \<in> set (bucket_of ?found k)"
        by (auto simp: lookup split: if_splits)
      then obtain s' where "day_of s' = k"
        and "entry_of s' = \<lparr>time = Some t, showId = show_id s\<rparr>"
        by (auto simp: bucket_of_def)
      then show "k = iso_date t"
        by (auto simp: day_of_def time_value_def entry_of_def)
    next
      assume "k = iso_date t"
      with in_found day entry
      have "\<lparr>time = Some t, showId = show_id s\<rparr> \<in> set (bucket_of ?found k)"
        by (force simp: bucket_of_def)
      then show "\<exists>bucket. map_of dateTime k = Some bucket
                                \<and> \<lparr>time = Some t, showId = show_id s\<rparr> \<in> set bucket"
        by (auto simp: lookup)
    qed
  qed
  have all: "\<forall>k bucket. map_of dateTime k = Some bucket
                 \<longrightarrow> bucket = map entry_of
                       (filter (\<lambda>s. movie s = movieId \<and> upcoming e s \<and> day_of s = k)
                          (Shows st))"
    by (auto simp: lookup bucket_of_def conj_commute conj_left_commute split: if_splits
        intro: arg_cong [where f = "map entry_of"] filter_cong)
  from reply keys one all show ?thesis by blast
qed

theorem getShow_groups_by_date_example:
  "getShow example_env two_shows_store (JStr ''tt1'')
     = Inr (Some heat,
            [(''2024-05-01'', [\<lparr>time = Some 1714557600000, showId = 0\<rparr>,
                               \<lparr>time = Some 1714572000000, showId = 1\<rparr>])])
   \<and> iso_date 1714557600000 = ''2024-05-01''
   \<and> iso_date 1714572000000 = ''2024-05-01''"
proof -
  have "getShow example_env two_shows_store (JStr ''tt1'')
     = Inr (Some heat,
            [(''2024-05-01'', [\<lparr>time = Some 1714557600000, showId = 0\<rparr>,
                               \<lparr>time = Some 1714572000000, showId = 1\<rparr>])])"
    by (simp add: getShow_def Let_def example_selectors two_shows_store_def upcoming_def
          Movie_findById_def heat_def date_key_iso_date iso_date_10 iso_date_14
          Object_prototype_def)
  with getShow_groups_by_date [of example_env "JStr ''tt1''" two_shows_store]
  show ?thesis by (simp add: example_selectors iso_date_10 iso_date_14)
qed

end
